theory Spec2Isabelle
  imports Main "HOL-Library.AList"
begin

section \<open>Record handlers of skygear-server: data model\<close>

text \<open>
  The development follows the handler package (record save, fetch, query and delete) and
  the push package (RouteSender). Go values are embedded as follows: a struct is a record,
  an interface value with a type switch is a datatype, a Go map is an association list
  when the code ranges over it and a partial function otherwise, every store effect is a
  change of an explicit \<open>Store\<close> value, and a panic is the \<open>Inl\<close> branch of the handler's
  result. Log output (logrus) is not part of the model.
\<close>

subsection \<open>Errors (package skyerr)\<close>

datatype ErrorCode =
    BadRequest | InvalidArgument | PermissionDenied | NotSupported | IncompatibleSchema
  | AtomicOperationFailure | ResourceNotFound | UnexpectedError

text \<open>
  Modelled from the spec: package \<open>skyerr\<close> is not among the source files. An error
  carries a machine-readable code, a message and, where applicable, a structured info.
  The info maps that the handlers build have one of four shapes, one constructor each.
  \<open>GoError\<close> is Go's \<open>error\<close> interface: either a \<open>skyerr\<close> or any other error, of
  which only the text is kept.
\<close>

datatype skyerr = SkyErr (Code: ErrorCode) (Message: string) (Info: ErrInfo)
and ErrInfo =
    NoInfo
  | InfoArguments "string list"
  | InfoDeserialize string "skyerr list"
  | InfoItems "(string \<times> skyerr) list"
  | InfoInner GoError
and GoError = PlainError string | SkyError skyerr

definition NewError :: "ErrorCode \<Rightarrow> string \<Rightarrow> skyerr" where
  "NewError code msg = SkyErr code msg NoInfo"

definition NewErrorWithInfo :: "ErrorCode \<Rightarrow> string \<Rightarrow> ErrInfo \<Rightarrow> skyerr" where
  "NewErrorWithInfo code msg info = SkyErr code msg info"

definition NewInvalidArgument :: "string \<Rightarrow> string list \<Rightarrow> skyerr" where
  "NewInvalidArgument msg arguments = NewErrorWithInfo InvalidArgument msg (InfoArguments arguments)"

text \<open>
  Modelled from the spec: \<open>skyerr.MakeError\<close> turns any Go error into a \<open>skyerr\<close>; a
  \<open>skyerr\<close> is returned as it is.
\<close>

fun MakeError :: "GoError \<Rightarrow> skyerr" where
  "MakeError (SkyError e) = e"
| "MakeError (PlainError s) = NewError UnexpectedError s"

subsection \<open>Records (package skydb)\<close>

text \<open>
  Modelled from the spec: package \<open>skydb\<close> is not among the source files. A record id is
  a pair of strings, type and key; a record is its id and its fields, each a typed value.
  System metadata and the record ACL play no part in the properties and are left out.
\<close>

record RecordID =
  Type :: string
  Key :: string

text \<open>
  Modelled from the spec: \<open>RecordID.String\<close> is the form \<open>type/key\<close>, the \<open>_id\<close> of
  the requests, which \<open>serializedError\<close> splits again at the first slash into
  \<open>_recordType\<close> and \<open>_recordID\<close>.
\<close>

definition RecordID_String :: "RecordID \<Rightarrow> string" where
  "RecordID_String rid = Type rid @ ''/'' @ Key rid"

datatype FieldType = TypeString | TypeInteger | TypeBoolean | TypeReference

datatype Value = StringVal string | IntegerVal int | BooleanVal bool | ReferenceVal RecordID

record Record =
  ID :: RecordID
  Data :: "(string \<times> Value) list"

text \<open>\<open>strings.SplitN(s, "/", 2)\<close>: one piece when there is no slash, two otherwise.\<close>

definition SplitN2 :: "string \<Rightarrow> string list" where
  "SplitN2 s =
     (if CHR ''/'' \<in> set s
      then [takeWhile (\<lambda>c. c \<noteq> CHR ''/'') s, tl (dropWhile (\<lambda>c. c \<noteq> CHR ''/'') s)]
      else [s])"

section \<open>Package push: RouteSender\<close>

text \<open>
  Modelled from the spec: \<open>skydb.Device\<close> is not among the source files. Of a device,
  \<open>Send\<close> reads the type tag only.
\<close>

record Device =
  DeviceID :: string
  DeviceType :: string
  Token :: string

type_synonym Mapper = "(string \<times> string) list"

text \<open>A \<open>Sender\<close> is its \<open>Send\<close> method; the result is the error, \<open>None\<close> for nil.\<close>

type_synonym Sender = "Mapper \<Rightarrow> Device \<Rightarrow> string option"

record RouteSender =
  senders :: "string \<rightharpoonup> Sender"

definition NewRouteSender :: RouteSender where
  "NewRouteSender = \<lparr>senders = Map.empty\<rparr>"

definition Route :: "RouteSender \<Rightarrow> string \<Rightarrow> Sender \<Rightarrow> RouteSender" where
  "Route s service sender = s\<lparr>senders := (senders s)(service \<mapsto> sender)\<rparr>"

definition Send :: "RouteSender \<Rightarrow> Mapper \<Rightarrow> Device \<Rightarrow> string option" where
  "Send s m device =
     (case senders s (DeviceType device) of
        None \<Rightarrow> Some (''cannot find sender with type = '' @ DeviceType device)
      | Some sender \<Rightarrow> sender m device)"

section \<open>Package handler: payloads\<close>

subsection \<open>record:save\<close>

text \<open>
  An incoming record map is kept together with what \<open>JSONRecord.FromMap\<close> makes of it:
  \<open>Inl\<close> the text of the de-serialization error, \<open>Inr\<close> the record (after
  \<open>SanitizeForInput\<close>). An incoming item is the type switch of
  \<open>makeResultsFromIncomingItem\<close>: a \<open>skyerr.Error\<close> or a \<open>skydb.RecordID\<close>.
\<close>

type_synonym RawMap = "string + Record"

datatype IncomingItem = ItemError skyerr | ItemID RecordID

record recordSavePayload =
  Atomic :: bool
  RawMaps :: "RawMap list"
  IncomingItems :: "IncomingItem list"
  Records :: "Record list"
  Errs :: "skyerr list"
  Clean :: bool

definition ItemLen :: "recordSavePayload \<Rightarrow> nat" where
  "ItemLen payload = length (RawMaps payload)"

text \<open>One round of the loop of \<open>Validate\<close>.\<close>

fun validateItem :: "recordSavePayload \<Rightarrow> RawMap \<Rightarrow> recordSavePayload" where
  "validateItem payload (Inl err) =
     (let skyErr = NewError InvalidArgument err
      in payload\<lparr>Clean := False,
                  Errs := Errs payload @ [skyErr],
                  IncomingItems := IncomingItems payload @ [ItemError skyErr]\<rparr>)"
| "validateItem payload (Inr record) =
     payload\<lparr>IncomingItems := IncomingItems payload @ [ItemID (ID record)],
              Records := Records payload @ [record]\<rparr>"

definition save_Validate :: "recordSavePayload \<Rightarrow> skyerr + recordSavePayload" where
  "save_Validate payload =
     (if ItemLen payload = 0
      then Inl (NewInvalidArgument ''expected list of record'' [''records''])
      else Inr (foldl validateItem
                  (payload\<lparr>Clean := True, Errs := [], IncomingItems := [], Records := []\<rparr>)
                  (RawMaps payload)))"

text \<open>
  \<open>Decode\<close>: the argument is what \<open>mapstructure.Decode\<close> made of the request data, \<open>None\<close>
  when it failed, else the atomic flag and the raw records.
\<close>

definition save_Decode :: "(bool \<times> RawMap list) option \<Rightarrow> skyerr + recordSavePayload" where
  "save_Decode data =
     (case data of
        None \<Rightarrow> Inl (NewError BadRequest ''fails to decode the request payload'')
      | Some (atomic, raws) \<Rightarrow>
          save_Validate \<lparr>Atomic = atomic, RawMaps = raws, IncomingItems = [], Records = [],
                         Errs = [], Clean = False\<rparr>)"

subsection \<open>record:fetch\<close>

record recordFetchPayload =
  RecordIDs :: "RecordID list"
  RawIDs :: "string list"

text \<open>
  The loop of \<open>Validate\<close> over the raw ids: it returns at the first id without a slash,
  and otherwise fills the record ids in order.
\<close>

fun parseIDs :: "(string \<Rightarrow> skyerr) \<Rightarrow> string list \<Rightarrow> skyerr + RecordID list" where
  "parseIDs bad [] = Inr []"
| "parseIDs bad (rawID # rest) =
     (case SplitN2 rawID of
        [t, k] \<Rightarrow> (case parseIDs bad rest of
                     Inl e \<Rightarrow> Inl e
                   | Inr ids \<Rightarrow> Inr (\<lparr>Type = t, Key = k\<rparr> # ids))
      | _ \<Rightarrow> Inl (bad rawID))"

definition fetch_Validate :: "recordFetchPayload \<Rightarrow> skyerr + recordFetchPayload" where
  "fetch_Validate payload =
     (if length (RawIDs payload) = 0
      then Inl (NewInvalidArgument ''expected list of id'' [''ids''])
      else (case parseIDs (\<lambda>rawID. NewInvalidArgument (''invalid id format: '' @ rawID) [''ids''])
                   (RawIDs payload) of
              Inl e \<Rightarrow> Inl e
            | Inr ids \<Rightarrow> Inr (payload\<lparr>RecordIDs := ids\<rparr>)))"

definition fetch_Decode :: "string list option \<Rightarrow> skyerr + recordFetchPayload" where
  "fetch_Decode data =
     (case data of
        None \<Rightarrow> Inl (NewError BadRequest ''fails to decode the request payload'')
      | Some ids \<Rightarrow> fetch_Validate \<lparr>RecordIDs = [], RawIDs = ids\<rparr>)"

subsection \<open>record:delete\<close>

record recordDeleteRecordPayload =
  rawType :: string
  rawKey :: string

definition RecordID_of :: "recordDeleteRecordPayload \<Rightarrow> RecordID" where
  "RecordID_of p = \<lparr>Type = rawType p, Key = rawKey p\<rparr>"

record recordDeletePayload =
  DeprecatedIDs :: "string list"
  RawRecords :: "recordDeleteRecordPayload list"
  delAtomic :: bool
  parsedRecordIDs :: "RecordID list"

definition delete_Validate :: "recordDeletePayload \<Rightarrow> skyerr + recordDeletePayload" where
  "delete_Validate payload =
     (if length (RawRecords payload) > 0
      then Inr (payload\<lparr>parsedRecordIDs := map RecordID_of (RawRecords payload)\<rparr>)
      else if length (DeprecatedIDs payload) > 0
      then (case parseIDs (\<lambda>rawID. NewInvalidArgument
                      (''record: \"_id\" should be of format '' @ [CHR 0x27] @ ''{type}/{id}''
                         @ [CHR 0x27] @ '', got \"'' @ rawID @ ''\"'') [''ids''])
                   (DeprecatedIDs payload) of
              Inl e \<Rightarrow> Inl e
            | Inr ids \<Rightarrow> Inr (payload\<lparr>parsedRecordIDs := ids\<rparr>))
      else Inl (NewInvalidArgument ''expected list of records'' [''records'']))"

definition delete_Decode ::
  "(string list \<times> recordDeleteRecordPayload list \<times> bool) option \<Rightarrow> skyerr + recordDeletePayload" where
  "delete_Decode data =
     (case data of
        None \<Rightarrow> Inl (NewError BadRequest ''fails to decode the request payload'')
      | Some (ids, raws, atomic) \<Rightarrow>
          delete_Validate \<lparr>DeprecatedIDs = ids, RawRecords = raws, delAtomic = atomic,
                           parsedRecordIDs = []\<rparr>)"

section \<open>The record store\<close>

text \<open>
  Modelled from the spec: the handlers reach the database only through \<open>skydb.Database\<close>
  and the connection, which are not among the source files. The store is a value: the
  persisted rows, the stored schema (declared type of each field of each record type),
  the snapshot of an open transaction, the list of calls issued to the store, in order,
  and the events sent to the plugin event sender.
\<close>

datatype StoreCall =
    CallExtendSchema | CallBegin | CallCommit | CallRollback
  | CallSave RecordID | CallDelete RecordID | CallGet RecordID
  | CallGetFieldACL | CallQuery string

type_synonym Rows = "RecordID \<rightharpoonup> Record"
type_synonym Schema = "(string \<times> string) \<rightharpoonup> FieldType"

record Store =
  rows :: Rows
  schema :: Schema
  snapshot :: "(Rows \<times> Schema) option"
  calls :: "StoreCall list"
  events :: "string list"

text \<open>
  Modelled from the spec: what the handlers can observe of a database: whether it is
  read-only, whether it implements \<open>skydb.Transactional\<close>, and how its operations end.
  The outcome of an operation that the handler package does not decide is a field of the
  record: the per-item check of a save, a delete or a fetch (\<open>None\<close> when the item goes
  through), and the failure, if any, of begin, commit and schema migration.
\<close>

record Database =
  IsReadOnly :: bool
  Transactional :: bool
  BeginErr :: "string option"
  CommitErr :: "string option"
  MigrateErr :: "GoError option"
  SaveErr :: "Rows \<Rightarrow> Record \<Rightarrow> skyerr option"
  DeleteErr :: "Rows \<Rightarrow> RecordID \<Rightarrow> skyerr option"
  FetchErr :: "Rows \<Rightarrow> RecordID \<Rightarrow> skyerr option"

definition logCall :: "StoreCall \<Rightarrow> Store \<Rightarrow> Store" where
  "logCall c st = st\<lparr>calls := calls st @ [c]\<rparr>"

subsection \<open>Transactions (package skydb)\<close>

text \<open>
  Modelled from the spec: \<open>skydb.Transactional\<close> and \<open>skydb.WithTransaction\<close> are not in
  the handler file. Begin keeps a snapshot of the store; rollback puts the snapshot back;
  commit drops it, and a commit that fails leaves nothing of the transaction behind.
  \<open>WithTransaction\<close> begins, runs the body, rolls back when the body returns an error and
  commits otherwise; it returns the first error.
\<close>

definition restore :: "Store \<Rightarrow> Store" where
  "restore st =
     (case snapshot st of
        None \<Rightarrow> st
      | Some (r, s) \<Rightarrow> st\<lparr>rows := r, schema := s, snapshot := None\<rparr>)"

definition Begin :: "Database \<Rightarrow> Store \<Rightarrow> GoError option \<times> Store" where
  "Begin db st =
     (case BeginErr db of
        Some e \<Rightarrow> (Some (PlainError e), logCall CallBegin st)
      | None \<Rightarrow> (None, logCall CallBegin (st\<lparr>snapshot := Some (rows st, schema st)\<rparr>)))"

definition Rollback :: "Store \<Rightarrow> Store" where
  "Rollback st = logCall CallRollback (restore st)"

definition Commit :: "Database \<Rightarrow> Store \<Rightarrow> GoError option \<times> Store" where
  "Commit db st =
     (case CommitErr db of
        Some e \<Rightarrow> (Some (PlainError e), logCall CallCommit (restore st))
      | None \<Rightarrow> (None, logCall CallCommit (st\<lparr>snapshot := None\<rparr>)))"

definition WithTransaction ::
  "Database \<Rightarrow> ('a \<Rightarrow> Store \<Rightarrow> GoError option \<times> 'a \<times> Store) \<Rightarrow> 'a \<Rightarrow> Store
     \<Rightarrow> GoError option \<times> 'a \<times> Store" where
  "WithTransaction db body x st =
     (case Begin db st of
        (Some e, st1) \<Rightarrow> (Some e, x, st1)
      | (None, st1) \<Rightarrow>
          (case body x st1 of
             (Some e, x', st2) \<Rightarrow> (Some e, x', Rollback st2)
           | (None, x', st2) \<Rightarrow> (case Commit db st2 of (err, st3) \<Rightarrow> (err, x', st3))))"

subsection \<open>Modify requests (package recordutil)\<close>

record RecordModifyRequest =
  Db :: Database
  RecordsToSave :: "Record list"
  RecordIDsToDelete :: "RecordID list"
  reqAtomic :: bool
  WithMasterKey :: bool

text \<open>
  \<open>ErrMap\<close> is a Go map that \<open>atomicModifyFunc\<close> ranges over: an association list,
  written with \<open>AList.update\<close> and read with \<open>map_of\<close>. The order of the list stands
  for the order in which Go happens to range over the map.
\<close>

record RecordModifyResponse =
  ErrMap :: "(RecordID \<times> skyerr) list"
  SavedRecords :: "Record list"

type_synonym recordModifyFunc =
  "RecordModifyRequest \<Rightarrow> RecordModifyResponse \<Rightarrow> Store
     \<Rightarrow> skyerr option \<times> RecordModifyResponse \<times> Store"

text \<open>
  Modelled from the spec: \<open>recordutil.RecordSaveHandler\<close> and
  \<open>recordutil.RecordDeleteHandler\<close> are not in the handler file. The items run in input
  order, each through the per-item mutation. A failing item is recorded in the error map
  under its record id and does not stop its siblings; a successful save is written to the
  rows and appended to the saved records. In an atomic request a non-empty error map makes
  the whole function return an error, so that the surrounding transaction rolls back.
\<close>

definition saveOne ::
  "Database \<Rightarrow> (RecordID \<times> skyerr) list \<times> Record list \<times> Store \<Rightarrow> Record
     \<Rightarrow> (RecordID \<times> skyerr) list \<times> Record list \<times> Store" where
  "saveOne db acc record =
     (case acc of (errMap, saved, st) \<Rightarrow>
        (case SaveErr db (rows st) record of
           Some err \<Rightarrow> (AList.update (ID record) err errMap, saved, logCall (CallSave (ID record)) st)
         | None \<Rightarrow> (errMap, saved @ [record],
                    logCall (CallSave (ID record)) (st\<lparr>rows := (rows st)(ID record \<mapsto> record)\<rparr>))))"

definition recordutil_RecordSaveHandler :: recordModifyFunc where
  "recordutil_RecordSaveHandler req resp st =
     (case foldl (saveOne (Db req)) (ErrMap resp, [], st) (RecordsToSave req) of
        (errMap, saved, st') \<Rightarrow>
          if reqAtomic req \<and> length errMap > 0
          then (Some (NewError UnexpectedError ''atomic operation failed''),
                resp\<lparr>ErrMap := errMap\<rparr>, st')
          else (None, resp\<lparr>ErrMap := errMap, SavedRecords := saved\<rparr>, st'))"

definition deleteOne ::
  "Database \<Rightarrow> (RecordID \<times> skyerr) list \<times> Store \<Rightarrow> RecordID
     \<Rightarrow> (RecordID \<times> skyerr) list \<times> Store" where
  "deleteOne db acc recordID =
     (case acc of (errMap, st) \<Rightarrow>
        (case DeleteErr db (rows st) recordID of
           Some err \<Rightarrow> (AList.update recordID err errMap, logCall (CallDelete recordID) st)
         | None \<Rightarrow> (errMap, logCall (CallDelete recordID) (st\<lparr>rows := (rows st)(recordID := None)\<rparr>))))"

definition recordutil_RecordDeleteHandler :: recordModifyFunc where
  "recordutil_RecordDeleteHandler req resp st =
     (case foldl (deleteOne (Db req)) (ErrMap resp, st) (RecordIDsToDelete req) of
        (errMap, st') \<Rightarrow>
          if reqAtomic req \<and> length errMap > 0
          then (Some (NewError UnexpectedError ''atomic operation failed''),
                resp\<lparr>ErrMap := errMap\<rparr>, st')
          else (None, resp\<lparr>ErrMap := errMap\<rparr>, st'))"

subsection \<open>Schema extension (package recordutil)\<close>

fun TypeOf :: "Value \<Rightarrow> FieldType" where
  "TypeOf (StringVal _) = TypeString"
| "TypeOf (IntegerVal _) = TypeInteger"
| "TypeOf (BooleanVal _) = TypeBoolean"
| "TypeOf (ReferenceVal _) = TypeReference"

text \<open>
  Modelled from the spec: \<open>recordutil.ExtendRecordSchema\<close> is not in the handler file.
  The fields of the records are visited in order. A field the schema does not declare is
  added with the type inferred from its value; a declared field keeps its type, and a
  value of another type is a conflict, reported as an IncompatibleSchema error that names
  the field. The stored schema is written only when no field conflicts and the migration
  itself does not fail. The result is \<open>Inr\<close> whether the schema changed.
\<close>

fun extendFields :: "string \<Rightarrow> (string \<times> Value) list \<Rightarrow> Schema \<times> bool \<Rightarrow> skyerr + Schema \<times> bool" where
  "extendFields rt [] acc = Inr acc"
| "extendFields rt ((f, v) # rest) (s, changed) =
     (case s (rt, f) of
        None \<Rightarrow> extendFields rt rest (s((rt, f) \<mapsto> TypeOf v), True)
      | Some t \<Rightarrow>
          if t = TypeOf v then extendFields rt rest (s, changed)
          else Inl (NewErrorWithInfo IncompatibleSchema
                      (''conflicting schema of field '' @ rt @ ''.'' @ f) (InfoArguments [f])))"

fun extendRecords :: "Record list \<Rightarrow> Schema \<times> bool \<Rightarrow> skyerr + Schema \<times> bool" where
  "extendRecords [] acc = Inr acc"
| "extendRecords (r # rest) acc =
     (case extendFields (Type (ID r)) (Data r) acc of
        Inl e \<Rightarrow> Inl e
      | Inr acc' \<Rightarrow> extendRecords rest acc')"

definition ExtendRecordSchema :: "Database \<Rightarrow> Record list \<Rightarrow> Store \<Rightarrow> (GoError + bool) \<times> Store" where
  "ExtendRecordSchema db records st =
     (case extendRecords records (schema st, False) of
        Inl e \<Rightarrow> (Inl (SkyError e), logCall CallExtendSchema st)
      | Inr (s, changed) \<Rightarrow>
          (case MigrateErr db of
             Some e \<Rightarrow> (Inl e, logCall CallExtendSchema st)
           | None \<Rightarrow> (Inr changed, logCall CallExtendSchema (st\<lparr>schema := s\<rparr>))))"

section \<open>Package handler: the atomic coordinator\<close>

text \<open>
  The info of the aggregate error: \<open>info[recordID.String()] = err\<close> for every entry of
  the error map, in the order of the range loop.
\<close>

definition atomicInfo :: "(RecordID \<times> skyerr) list \<Rightarrow> (string \<times> skyerr) list" where
  "atomicInfo errMap =
     foldl (\<lambda>info (recordID, err). AList.update (RecordID_String recordID) err info) [] errMap"

text \<open>
  \<open>atomicModifyFunc\<close> returns a closure over \<open>mFunc\<close> only (its own \<open>req\<close> and \<open>resp\<close>
  are shadowed by the closure's parameters), so the model takes \<open>mFunc\<close> and then the
  closure's arguments.
\<close>

definition atomicModifyFunc :: "recordModifyFunc \<Rightarrow> recordModifyFunc" where
  "atomicModifyFunc mFunc req resp st =
     (if \<not> Transactional (Db req)
      then (Some (NewError NotSupported ''database impl does not support transaction''), resp, st)
      else
        (case WithTransaction (Db req)
                (\<lambda>r s. case mFunc req r s of (e, r', s') \<Rightarrow> (map_option SkyError e, r', s'))
                resp st of
           (txErr, resp', st') \<Rightarrow>
             if length (ErrMap resp') > 0
             then (Some (NewErrorWithInfo AtomicOperationFailure
                           ''Atomic Operation rolled back due to one or more errors''
                           (InfoItems (atomicInfo (ErrMap resp')))), resp', st')
             else (case txErr of
                     Some e \<Rightarrow>
                       (Some (NewErrorWithInfo AtomicOperationFailure
                                ''Atomic Operation rolled back due to an error'' (InfoInner e)),
                        resp', st')
                   | None \<Rightarrow> (None, resp', st'))))"

section \<open>Package handler: the handlers\<close>

text \<open>
  A result entry is a \<open>serializedError\<close> (id and error), the anonymous struct of the
  delete handler (\<open>_id\<close>, \<open>_recordID\<close>, \<open>_recordType\<close>, \<open>_type\<close>) or the JSON form of
  a record as the result filter leaves it.
\<close>

datatype ResultItem =
    SerializedError string skyerr
  | Tombstone RecordID string string string
  | JSONResult Record

definition newSerializedError :: "string \<Rightarrow> skyerr \<Rightarrow> ResultItem" where
  "newSerializedError id' err = SerializedError id' err"

record Response =
  Err :: "skyerr option"
  Result :: "ResultItem list option"
  RespInfo :: "(string \<times> string) list option"

definition errResponse :: "skyerr \<Rightarrow> Response" where
  "errResponse e = \<lparr>Err = Some e, Result = None, RespInfo = None\<rparr>"

text \<open>
  The request as the handlers read it: the selected database, the principal, the master
  key flag, and the outcome of \<open>recordutil.NewRecordResultFilter\<close> for this request
  (an error, or the filter applied to each record of the output).
\<close>

type_synonym AuthInfo = string

record Payload =
  Database :: Database
  AuthInfo :: AuthInfo
  HasMasterKey :: bool
  NewRecordResultFilter :: "GoError + (Record \<Rightarrow> Record)"

subsection \<open>RecordSaveHandler\<close>

text \<open>
  The loop of \<open>makeResultsFromIncomingItem\<close>, with \<open>currRecordIdx\<close> and the results so
  far as arguments. Indexing the saved records out of range panics.
\<close>

fun makeResultsFromIncomingItem ::
  "IncomingItem list \<Rightarrow> RecordModifyResponse \<Rightarrow> (Record \<Rightarrow> Record) \<Rightarrow> nat \<Rightarrow> ResultItem list
     \<Rightarrow> string + ResultItem list" where
  "makeResultsFromIncomingItem [] resp resultFilter currRecordIdx results = Inr results"
| "makeResultsFromIncomingItem (ItemError item # rest) resp resultFilter currRecordIdx results =
     makeResultsFromIncomingItem rest resp resultFilter currRecordIdx
       (results @ [newSerializedError [] item])"
| "makeResultsFromIncomingItem (ItemID item # rest) resp resultFilter currRecordIdx results =
     (case map_of (ErrMap resp) item of
        Some err \<Rightarrow>
          makeResultsFromIncomingItem rest resp resultFilter currRecordIdx
            (results @ [newSerializedError (RecordID_String item) err])
      | None \<Rightarrow>
          if currRecordIdx < length (SavedRecords resp)
          then makeResultsFromIncomingItem rest resp resultFilter (Suc currRecordIdx)
                 (results @ [JSONResult (resultFilter (SavedRecords resp ! currRecordIdx))])
          else Inl ''index out of range'')"

definition save_Handle ::
  "bool \<Rightarrow> Payload \<Rightarrow> (bool \<times> RawMap list) option \<Rightarrow> Store \<Rightarrow> (string + Response) \<times> Store" where
  "save_Handle hasEventSender payload data st =
     (case save_Decode data of
        Inl skyErr \<Rightarrow> (Inr (errResponse skyErr), st)
      | Inr p \<Rightarrow>
          if IsReadOnly (Database payload)
          then (Inr (errResponse
                  (NewError NotSupported ''modifying the selected database is not supported'')), st)
          else
            (case NewRecordResultFilter payload of
               Inl err \<Rightarrow> (Inr (errResponse (MakeError err)), st)
             | Inr resultFilter \<Rightarrow>
                 let req = \<lparr>Db = Database payload, RecordsToSave = Records p,
                            RecordIDsToDelete = [], reqAtomic = Atomic p,
                            WithMasterKey = HasMasterKey payload\<rparr>;
                     resp = \<lparr>ErrMap = [], SavedRecords = []\<rparr>
                 in
                 if Atomic p \<and> \<not> Clean p
                 then (Inr (errResponse
                         (NewErrorWithInfo InvalidArgument ''fails to de-serialize records''
                            (InfoDeserialize ''records'' (Errs p)))), st)
                 else
                   let saveFunc = (if Atomic p then atomicModifyFunc recordutil_RecordSaveHandler
                                   else recordutil_RecordSaveHandler)
                   in
                   (case ExtendRecordSchema (Database payload) (Records p) st of
                      (Inl (SkyError myerr), st1) \<Rightarrow> (Inr (errResponse myerr), st1)
                    | (Inl (PlainError _), st1) \<Rightarrow>
                        (Inr (errResponse
                           (NewError IncompatibleSchema ''failed to migrate record schema'')), st1)
                    | (Inr schemaUpdated, st1) \<Rightarrow>
                        (case saveFunc req resp st1 of
                           (Some err, resp', st2) \<Rightarrow> (Inr (errResponse err), st2)
                         | (None, resp', st2) \<Rightarrow>
                             (case makeResultsFromIncomingItem (IncomingItems p) resp'
                                     resultFilter 0 [] of
                                Inl panic \<Rightarrow> (Inl panic, st2)
                              | Inr results \<Rightarrow>
                                  (Inr \<lparr>Err = None, Result = Some results, RespInfo = None\<rparr>,
                                   if schemaUpdated \<and> hasEventSender
                                   then st2\<lparr>events := events st2 @ [''schema-changed'']\<rparr>
                                   else st2))))))"

subsection \<open>RecordDeleteHandler\<close>

definition deleteResult :: "RecordModifyResponse \<Rightarrow> RecordID \<Rightarrow> ResultItem" where
  "deleteResult resp recordID =
     (case map_of (ErrMap resp) recordID of
        Some err \<Rightarrow> newSerializedError (RecordID_String recordID) err
      | None \<Rightarrow> Tombstone recordID (Key recordID) (Type recordID) ''record'')"

definition delete_Handle ::
  "Payload \<Rightarrow> (string list \<times> recordDeleteRecordPayload list \<times> bool) option \<Rightarrow> Store
     \<Rightarrow> (string + Response) \<times> Store" where
  "delete_Handle payload data st =
     (case delete_Decode data of
        Inl skyErr \<Rightarrow> (Inr (errResponse skyErr), st)
      | Inr p \<Rightarrow>
          if IsReadOnly (Database payload)
          then (Inr (errResponse
                  (NewError NotSupported ''modifying the selected database is not supported'')), st)
          else
            let req = \<lparr>Db = Database payload, RecordsToSave = [],
                       RecordIDsToDelete = parsedRecordIDs p, reqAtomic = delAtomic p,
                       WithMasterKey = HasMasterKey payload\<rparr>;
                resp = \<lparr>ErrMap = [], SavedRecords = []\<rparr>;
                deleteFunc = (if delAtomic p then atomicModifyFunc recordutil_RecordDeleteHandler
                              else recordutil_RecordDeleteHandler)
            in
            (case deleteFunc req resp st of
               (Some err, resp', st') \<Rightarrow> (Inr (errResponse err), st')
             | (None, resp', st') \<Rightarrow>
                 (Inr \<lparr>Err = None,
                       Result = Some (foldl (\<lambda>results recordID. results @ [deleteResult resp' recordID])
                                        [] (parsedRecordIDs p)),
                       RespInfo = None\<rparr>, st')))"

subsection \<open>RecordFetchHandler\<close>

text \<open>
  Modelled from the spec: \<open>recordutil.RecordFetcher\<close> is not in the handler file. A fetch
  reads one row; it fails with the error of the access check, or with ResourceNotFound
  when there is no such row.
\<close>

definition FetchRecord :: "Database \<Rightarrow> RecordID \<Rightarrow> Store \<Rightarrow> (skyerr + Record) \<times> Store" where
  "FetchRecord db recordID st =
     (case FetchErr db (rows st) recordID of
        Some err \<Rightarrow> (Inl err, logCall (CallGet recordID) st)
      | None \<Rightarrow>
          (case rows st recordID of
             None \<Rightarrow> (Inl (NewError ResourceNotFound ''record not found''),
                      logCall (CallGet recordID) st)
           | Some record \<Rightarrow> (Inr record, logCall (CallGet recordID) st)))"

definition fetchOne ::
  "Database \<Rightarrow> (Record \<Rightarrow> Record) \<Rightarrow> ResultItem list \<times> Store \<Rightarrow> RecordID \<Rightarrow> ResultItem list \<times> Store" where
  "fetchOne db resultFilter acc recordID =
     (case acc of (results, st) \<Rightarrow>
        (case FetchRecord db recordID st of
           (Inl err, st') \<Rightarrow> (results @ [newSerializedError (RecordID_String recordID) err], st')
         | (Inr record, st') \<Rightarrow> (results @ [JSONResult (resultFilter record)], st')))"

definition fetch_Handle ::
  "Payload \<Rightarrow> string list option \<Rightarrow> Store \<Rightarrow> (string + Response) \<times> Store" where
  "fetch_Handle payload data st =
     (case fetch_Decode data of
        Inl skyErr \<Rightarrow> (Inr (errResponse skyErr), st)
      | Inr p \<Rightarrow>
          (case NewRecordResultFilter payload of
             Inl err \<Rightarrow> (Inr (errResponse (MakeError err)), st)
           | Inr resultFilter \<Rightarrow>
               (case foldl (fetchOne (Database payload) resultFilter) ([], st) (RecordIDs p) of
                  (results, st') \<Rightarrow>
                    (Inr \<lparr>Err = None, Result = Some results, RespInfo = None\<rparr>, st'))))"

subsection \<open>RecordQueryHandler\<close>

text \<open>
  Modelled from the spec: the query type, the field ACL and \<open>queryAccessVisitor\<close> are not
  in the handler file. A predicate is a tree of comparisons (field path, operator,
  literal or subquery), logical combinators and function expressions. A field path names
  a field of the query's record type, or a field of another record type. The field ACL
  is its decision function at the read level: may this principal read this field of this
  record type.
\<close>

datatype FieldPath = Field string | ForeignField string string

datatype Predicate =
    Comparison FieldPath string Operand
  | Combinator string "Predicate list"
  | FuncExpr FieldPath "Value list"
and Operand = Literal Value | Subquery Predicate

record Query =
  QueryType :: string
  QueryPredicate :: "Predicate option"

type_synonym FieldACL = "AuthInfo \<Rightarrow> string \<Rightarrow> string \<Rightarrow> bool"

record AccessControlOptions =
  ViewAsUser :: AuthInfo
  BypassAccessControl :: bool

fun resolvePath :: "string \<Rightarrow> FieldPath \<Rightarrow> string \<times> string" where
  "resolvePath recordType (Field f) = (recordType, f)"
| "resolvePath recordType (ForeignField t f) = (t, f)"

definition checkPath :: "FieldACL \<Rightarrow> AuthInfo \<Rightarrow> string \<Rightarrow> FieldPath \<Rightarrow> skyerr option" where
  "checkPath fieldACL authInfo recordType path =
     (case resolvePath recordType path of
        (t, f) \<Rightarrow>
          if fieldACL authInfo t f then None
          else Some (NewError PermissionDenied
                       (''Cannot query on field '' @ f @ '' of record type '' @ t
                          @ '' due to Field ACL'')))"

text \<open>
  The walk is depth first and left to right. The accumulator is the visitor's error: once
  it is set, nothing more is checked.
\<close>

fun visitPredicate :: "FieldACL \<Rightarrow> AuthInfo \<Rightarrow> string \<Rightarrow> Predicate \<Rightarrow> skyerr option \<Rightarrow> skyerr option"
and visitPredicates :: "FieldACL \<Rightarrow> AuthInfo \<Rightarrow> string \<Rightarrow> Predicate list \<Rightarrow> skyerr option \<Rightarrow> skyerr option"
and visitOperand :: "FieldACL \<Rightarrow> AuthInfo \<Rightarrow> string \<Rightarrow> Operand \<Rightarrow> skyerr option \<Rightarrow> skyerr option"
where
  "visitPredicate acl a rt p (Some e) = Some e"
| "visitPredicate acl a rt (Comparison path opr operand) None =
     visitOperand acl a rt operand (checkPath acl a rt path)"
| "visitPredicate acl a rt (Combinator opr children) None = visitPredicates acl a rt children None"
| "visitPredicate acl a rt (FuncExpr path args) None = checkPath acl a rt path"
| "visitPredicates acl a rt [] err = err"
| "visitPredicates acl a rt (p # ps) err =
     visitPredicates acl a rt ps (visitPredicate acl a rt p err)"
| "visitOperand acl a rt operand (Some e) = Some e"
| "visitOperand acl a rt (Literal v) None = None"
| "visitOperand acl a rt (Subquery p) None = visitPredicate acl a rt p None"

definition Accept :: "Query \<Rightarrow> FieldACL \<Rightarrow> AuthInfo \<Rightarrow> skyerr option" where
  "Accept q fieldACL authInfo =
     (case QueryPredicate q of
        None \<Rightarrow> None
      | Some p \<Rightarrow> visitPredicate fieldACL authInfo (QueryType q) p None)"

text \<open>The field paths a predicate refers to, in the order of the walk.\<close>

fun pathsOf :: "Predicate \<Rightarrow> FieldPath list"
and pathsOfList :: "Predicate list \<Rightarrow> FieldPath list"
and pathsOfOperand :: "Operand \<Rightarrow> FieldPath list"
where
  "pathsOf (Comparison path opr operand) = path # pathsOfOperand operand"
| "pathsOf (Combinator opr children) = pathsOfList children"
| "pathsOf (FuncExpr path args) = [path]"
| "pathsOfList [] = []"
| "pathsOfList (p # ps) = pathsOf p @ pathsOfList ps"
| "pathsOfOperand (Literal v) = []"
| "pathsOfOperand (Subquery p) = pathsOf p"

definition queryPaths :: "Query \<Rightarrow> FieldPath list" where
  "queryPaths q = (case QueryPredicate q of None \<Rightarrow> [] | Some p \<Rightarrow> pathsOf p)"

definition readable :: "FieldACL \<Rightarrow> AuthInfo \<Rightarrow> string \<Rightarrow> FieldPath \<Rightarrow> bool" where
  "readable fieldACL authInfo recordType path =
     (case resolvePath recordType path of (t, f) \<Rightarrow> fieldACL authInfo t f)"

text \<open>
  What the query handler gets from its collaborators: the parsed query or the parser's
  error, the field ACL of the connection or the error of loading it, the records of the
  store query or its error, the error of the scan, the records after asset completion
  and eager loading, and the result info.
\<close>

record QueryEnv =
  queryFromRaw :: "skyerr + Query"
  GetRecordFieldAccess :: "GoError + FieldACL"
  dbQuery :: "Rows \<Rightarrow> Query \<Rightarrow> AccessControlOptions \<Rightarrow> GoError + Record list"
  scanErr :: "GoError option"
  embedEager :: "Record \<Rightarrow> Record"
  QueryResultInfo :: "GoError + (string \<times> string) list"

definition query_Handle :: "Payload \<Rightarrow> QueryEnv \<Rightarrow> Store \<Rightarrow> (string + Response) \<times> Store" where
  "query_Handle payload env st =
     (case queryFromRaw env of
        Inl skyErr \<Rightarrow> (Inr (errResponse skyErr), st)
      | Inr q \<Rightarrow>
          let accessControlOptions =
                \<lparr>ViewAsUser = AuthInfo payload, BypassAccessControl = HasMasterKey payload\<rparr>;
              st1 = logCall CallGetFieldACL st
          in
          (case GetRecordFieldAccess env of
             Inl err \<Rightarrow> (Inl ''panic: cannot load the field ACL'', st1)
           | Inr fieldACL \<Rightarrow>
               (case (if \<not> BypassAccessControl accessControlOptions
                      then Accept q fieldACL (ViewAsUser accessControlOptions)
                      else None) of
                  Some err \<Rightarrow> (Inr (errResponse err), st1)
                | None \<Rightarrow>
                    let st2 = logCall (CallQuery (QueryType q)) st1 in
                    (case dbQuery env (rows st2) q accessControlOptions of
                       Inl err \<Rightarrow> (Inr (errResponse (MakeError err)), st2)
                     | Inr records \<Rightarrow>
                         (case scanErr env of
                            Some err \<Rightarrow> (Inr (errResponse (MakeError err)), st2)
                          | None \<Rightarrow>
                              (case NewRecordResultFilter payload of
                                 Inl err \<Rightarrow> (Inr (errResponse (MakeError err)), st2)
                               | Inr recordResultFilter \<Rightarrow>
                                   let output = map (\<lambda>record. JSONResult
                                                  (recordResultFilter (embedEager env record))) records
                                   in
                                   (case QueryResultInfo env of
                                      Inl err \<Rightarrow>
                                        (Inr \<lparr>Err = Some (MakeError err), Result = Some output,
                                              RespInfo = None\<rparr>, st2)
                                    | Inr resultInfo \<Rightarrow>
                                        (Inr \<lparr>Err = None, Result = Some output,
                                              RespInfo = (if length resultInfo > 0
                                                          then Some resultInfo else None)\<rparr>,
                                         st2))))))))"

section \<open>Notions used in the statements\<close>

text \<open>The two per-item functions that the handlers hand to the atomic coordinator.\<close>

definition item_function :: "recordModifyFunc \<Rightarrow> bool" where
  "item_function mFunc =
     (mFunc = recordutil_RecordSaveHandler \<or> mFunc = recordutil_RecordDeleteHandler)"

section \<open>A concrete store and concrete requests\<close>

text \<open>
  A transaction-capable, writable database. A save or delete of a record fails with
  PermissionDenied when the stored row carries the field \<open>locked\<close>, and a delete fails
  with ResourceNotFound when there is no row.
\<close>

definition isLocked :: "Rows \<Rightarrow> RecordID \<Rightarrow> bool" where
  "isLocked rs recordID =
     (case rs recordID of None \<Rightarrow> False | Some r \<Rightarrow> (''locked'', BooleanVal True) \<in> set (Data r))"

definition exampleDb :: Database where
  "exampleDb =
     \<lparr>IsReadOnly = False, Transactional = True, BeginErr = None, CommitErr = None,
      MigrateErr = None,
      SaveErr = (\<lambda>rs r. if isLocked rs (ID r)
                          then Some (NewError PermissionDenied ''no permission to modify'')
                          else None),
      DeleteErr = (\<lambda>rs recordID.
                     if rs recordID = None then Some (NewError ResourceNotFound ''record not found'')
                     else if isLocked rs recordID
                     then Some (NewError PermissionDenied ''no permission to delete'')
                     else None),
      FetchErr = (\<lambda>rs recordID. None)\<rparr>"

definition lockedRecord :: "RecordID \<Rightarrow> Record" where
  "lockedRecord recordID = \<lparr>ID = recordID, Data = [(''locked'', BooleanVal True)]\<rparr>"

definition noteRecord :: "string \<Rightarrow> (string \<times> Value) list \<Rightarrow> Record" where
  "noteRecord k fs = \<lparr>ID = \<lparr>Type = ''note'', Key = k\<rparr>, Data = fs\<rparr>"

definition exampleStore :: Store where
  "exampleStore =
     \<lparr>rows = [\<lparr>Type = ''a'', Key = ''b/c''\<rparr> \<mapsto> lockedRecord \<lparr>Type = ''a'', Key = ''b/c''\<rparr>,
              \<lparr>Type = ''note'', Key = ''9''\<rparr> \<mapsto> lockedRecord \<lparr>Type = ''note'', Key = ''9''\<rparr>,
              \<lparr>Type = ''note'', Key = ''5''\<rparr> \<mapsto> noteRecord ''5'' [(''age'', IntegerVal 30)]],
      schema = [(''note'', ''age'') \<mapsto> TypeInteger, (''note'', ''locked'') \<mapsto> TypeBoolean,
                (''a'', ''locked'') \<mapsto> TypeBoolean],
      snapshot = None, calls = [], events = []\<rparr>"

definition examplePayload :: Payload where
  "examplePayload =
     \<lparr>Database = exampleDb, AuthInfo = ''user1'', HasMasterKey = False,
      NewRecordResultFilter = Inr (\<lambda>r. r\<lparr>Data := filter (\<lambda>(f, v). f \<noteq> ''secret'') (Data r)\<rparr>)\<rparr>"

definition freshResponse :: RecordModifyResponse where
  "freshResponse = \<lparr>ErrMap = [], SavedRecords = []\<rparr>"

text \<open>
  An atomic save of two notes, the second of which is locked in the store, and an atomic
  delete of two records whose ids have the same string form \<open>a/b/c\<close>.
\<close>

definition atomicSaveRequest :: RecordModifyRequest where
  "atomicSaveRequest =
     \<lparr>Db = exampleDb,
      RecordsToSave = [noteRecord ''1'' [(''age'', IntegerVal 12)],
                       noteRecord ''9'' [(''age'', IntegerVal 40)]],
      RecordIDsToDelete = [], reqAtomic = True, WithMasterKey = False\<rparr>"

definition collidingDeleteRequest :: RecordModifyRequest where
  "collidingDeleteRequest =
     \<lparr>Db = exampleDb, RecordsToSave = [],
      RecordIDsToDelete = [\<lparr>Type = ''a/b'', Key = ''c''\<rparr>, \<lparr>Type = ''a'', Key = ''b/c''\<rparr>],
      reqAtomic = True, WithMasterKey = False\<rparr>"

text \<open>
  A batch of raw records read item by item: the item that \<open>Validate\<close> appends for a raw
  record, the errors of the malformed ones and the records of the others, in input order.
\<close>

fun incomingItem :: "RawMap \<Rightarrow> IncomingItem" where
  "incomingItem (Inl err) = ItemError (NewError InvalidArgument err)"
| "incomingItem (Inr record) = ItemID (ID record)"

definition malformedErrors :: "RawMap list \<Rightarrow> skyerr list" where
  "malformedErrors raws = [NewError InvalidArgument err. Inl err \<leftarrow> raws]"

definition decodedRecords :: "RawMap list \<Rightarrow> Record list" where
  "decodedRecords raws = [record. Inr record \<leftarrow> raws]"

text \<open>
  An atomic save of two notes: the first brings the field \<open>title\<close>, which the schema does
  not declare yet, and the second is locked in the store.
\<close>

definition titledBatch :: "RawMap list" where
  "titledBatch =
     [Inr (noteRecord ''1'' [(''age'', IntegerVal 12), (''title'', StringVal ''hello'')]),
      Inr (noteRecord ''9'' [(''age'', IntegerVal 40)])]"

text \<open>
  The entry of the result array that belongs to a raw record of a save batch, given the
  response of the save and the result filter: the de-serialization error without an id,
  the error that the error map holds for the record's id, under the id's string form, or
  the filtered record.
\<close>

fun saveResult :: "RecordModifyResponse \<Rightarrow> (Record \<Rightarrow> Record) \<Rightarrow> RawMap \<Rightarrow> ResultItem" where
  "saveResult resp resultFilter (Inl err) = SerializedError [] (NewError InvalidArgument err)"
| "saveResult resp resultFilter (Inr record) =
     (case map_of (ErrMap resp) (ID record) of
        Some err \<Rightarrow> SerializedError (RecordID_String (ID record)) err
      | None \<Rightarrow> JSONResult (resultFilter record))"

text \<open>
  The outcome of the per-item save of each record of a batch, in the order of the run:
  the error of the item, or \<open>None\<close> for an item that is written to the rows.
\<close>

fun saveOutcomes :: "Database \<Rightarrow> Rows \<Rightarrow> Record list \<Rightarrow> skyerr option list" where
  "saveOutcomes db rs [] = []"
| "saveOutcomes db rs (record # rest) =
     (case SaveErr db rs record of
        Some err \<Rightarrow> Some err # saveOutcomes db rs rest
      | None \<Rightarrow> None # saveOutcomes db (rs(ID record \<mapsto> record)) rest)"

text \<open>
  A non-atomic save of three records, one of them malformed and one locked in the store,
  and a non-atomic save in which the second note brings a string for the integer field
  \<open>age\<close>.
\<close>

definition mixedBatch :: "RawMap list" where
  "mixedBatch =
     [Inr (noteRecord ''1'' [(''age'', IntegerVal 12), (''secret'', StringVal ''x'')]),
      Inl ''missing _id'',
      Inr (noteRecord ''9'' [(''age'', IntegerVal 40)])]"

definition conflictingBatch :: "RawMap list" where
  "conflictingBatch =
     [Inr (noteRecord ''1'' [(''age'', IntegerVal 12)]),
      Inr (noteRecord ''2'' [(''age'', StringVal ''twelve'')])]"

text \<open>
  The first denial among a list of field paths, in list order: the outcome of the walk
  over a predicate whose paths, in the order of the walk, are these.
\<close>

fun firstDenied :: "FieldACL \<Rightarrow> AuthInfo \<Rightarrow> string \<Rightarrow> FieldPath list \<Rightarrow> skyerr option" where
  "firstDenied fieldACL authInfo recordType [] = None"
| "firstDenied fieldACL authInfo recordType (path # paths) =
     (case checkPath fieldACL authInfo recordType path of
        Some e \<Rightarrow> Some e
      | None \<Rightarrow> firstDenied fieldACL authInfo recordType paths)"

text \<open>
  A field ACL under which nobody but \<open>admin\<close> reads the field \<open>secret\<close> of a note, and a
  query on notes whose predicate compares \<open>age\<close> and then \<open>secret\<close>.
\<close>

definition secretACL :: FieldACL where
  "secretACL authInfo recordType field =
     (\<not> (recordType = ''note'' \<and> field = ''secret'' \<and> authInfo \<noteq> ''admin''))"

definition secretQuery :: Query where
  "secretQuery =
     \<lparr>QueryType = ''note'',
      QueryPredicate = Some (Combinator ''and''
        [Comparison (Field ''age'') ''gt'' (Literal (IntegerVal 18)),
         Comparison (Field ''secret'') ''eq'' (Literal (StringVal ''x''))])\<rparr>"

definition secretQueryEnv :: QueryEnv where
  "secretQueryEnv =
     \<lparr>queryFromRaw = Inr secretQuery, GetRecordFieldAccess = Inr secretACL,
      dbQuery = (\<lambda>rs q opts. Inr [noteRecord ''5'' [(''age'', IntegerVal 30)]]),
      scanErr = None, embedEager = (\<lambda>r. r), QueryResultInfo = Inr []\<rparr>"

text \<open>
  A non-atomic save in which two records have the same id: the first locks the note, so
  the second fails; the third is another note.
\<close>

definition duplicateBatch :: "RawMap list" where
  "duplicateBatch =
     [Inr (noteRecord ''3'' [(''locked'', BooleanVal True)]),
      Inr (noteRecord ''3'' [(''age'', IntegerVal 1)]),
      Inr (noteRecord ''4'' [(''age'', IntegerVal 2)])]"

section \<open>Properties\<close>

subsection \<open>Dispatch of RouteSender\<close>

text \<open>
  C9. \<open>RouteSender.Send\<close> looks the device's type up in the table of senders. When no
  sender is registered for the type, it returns the error
  \<open>cannot find sender with type = <type>\<close>, which names the missing type; when one is
  registered, the result of \<open>Send\<close> is the result of that sender on the same message and
  device.
\<close>

theorem RouteSender_Send_dispatch:
  "(senders s (DeviceType device) = None \<longrightarrow>
      Send s m device = Some (''cannot find sender with type = '' @ DeviceType device))
   \<and> (\<forall>sender. senders s (DeviceType device) = Some sender \<longrightarrow>
        Send s m device = sender m device)"
  by (simp add: Send_def)

theorem RouteSender_Send_dispatch_witness:
  "Send (Route NewRouteSender ''apns'' (\<lambda>m d. Some (''rejected '' @ Token d))) []
        \<lparr>DeviceID = ''d1'', DeviceType = ''gcm'', Token = ''t1''\<rparr>
     = Some ''cannot find sender with type = gcm''
   \<and> Send (Route NewRouteSender ''apns'' (\<lambda>m d. Some (''rejected '' @ Token d))) []
        \<lparr>DeviceID = ''d2'', DeviceType = ''apns'', Token = ''t2''\<rparr>
     = Some ''rejected t2''"
  using RouteSender_Send_dispatch
          [of "Route NewRouteSender ''apns'' (\<lambda>m d. Some (''rejected '' @ Token d))"
              "\<lparr>DeviceID = ''d1'', DeviceType = ''gcm'', Token = ''t1''\<rparr>" "[]"]
        RouteSender_Send_dispatch
          [of "Route NewRouteSender ''apns'' (\<lambda>m d. Some (''rejected '' @ Token d))"
              "\<lparr>DeviceID = ''d2'', DeviceType = ''apns'', Token = ''t2''\<rparr>" "[]"]
  by (simp add: Route_def NewRouteSender_def)

subsection \<open>Empty batches\<close>

text \<open>
  C10. A save with zero records, a fetch with zero ids and a delete with neither records
  nor ids are answered by the InvalidArgument error of payload validation, and the store
  that the handler returns is the store it was given: no call was issued and nothing was
  written.
\<close>

theorem empty_batch_is_invalid_argument:
  "save_Handle hasEventSender payload (Some (atomic, [])) st
     = (Inr (errResponse (NewInvalidArgument ''expected list of record'' [''records''])), st)
   \<and> fetch_Handle payload (Some []) st
     = (Inr (errResponse (NewInvalidArgument ''expected list of id'' [''ids''])), st)
   \<and> delete_Handle payload (Some ([], [], atomic)) st
     = (Inr (errResponse (NewInvalidArgument ''expected list of records'' [''records''])), st)
   \<and> Code (NewInvalidArgument msg arguments) = InvalidArgument"
  by (simp add: save_Handle_def save_Decode_def save_Validate_def ItemLen_def
        fetch_Handle_def fetch_Decode_def fetch_Validate_def
        delete_Handle_def delete_Decode_def delete_Validate_def
        NewInvalidArgument_def NewErrorWithInfo_def)

subsection \<open>The atomic coordinator\<close>

lemma saveOne_frame:
  "saveOne db (em, sv, st) r = (em', sv', st') \<Longrightarrow>
     snapshot st' = snapshot st \<and> schema st' = schema st \<and> events st' = events st"
  by (auto simp: saveOne_def logCall_def split: option.splits)

lemma save_loop_frame:
  "foldl (saveOne db) (em, sv, st) rs = (em', sv', st') \<Longrightarrow>
     snapshot st' = snapshot st \<and> schema st' = schema st \<and> events st' = events st"
proof (induction rs arbitrary: em sv st)
  case Nil
  then show ?case by simp
next
  case (Cons r rs)
  obtain em1 sv1 st1 where s: "saveOne db (em, sv, st) r = (em1, sv1, st1)"
    by (cases "saveOne db (em, sv, st) r") auto
  with Cons.prems have "foldl (saveOne db) (em1, sv1, st1) rs = (em', sv', st')" by simp
  from Cons.IH[OF this] saveOne_frame[OF s] show ?case by simp
qed

lemma deleteOne_frame:
  "deleteOne db (em, st) r = (em', st') \<Longrightarrow>
     snapshot st' = snapshot st \<and> schema st' = schema st \<and> events st' = events st"
  by (auto simp: deleteOne_def logCall_def split: option.splits)

lemma delete_loop_frame:
  "foldl (deleteOne db) (em, st) rs = (em', st') \<Longrightarrow>
     snapshot st' = snapshot st \<and> schema st' = schema st \<and> events st' = events st"
proof (induction rs arbitrary: em st)
  case Nil
  then show ?case by simp
next
  case (Cons r rs)
  obtain em1 st1 where s: "deleteOne db (em, st) r = (em1, st1)"
    by (cases "deleteOne db (em, st) r") auto
  with Cons.prems have "foldl (deleteOne db) (em1, st1) rs = (em', st')" by simp
  from Cons.IH[OF this] deleteOne_frame[OF s] show ?case by simp
qed

lemma mFunc_frame:
  assumes "item_function mFunc" "mFunc req resp st = (e, resp', st')"
  shows "snapshot st' = snapshot st \<and> schema st' = schema st"
  using assms
  by (auto simp: item_function_def recordutil_RecordSaveHandler_def recordutil_RecordDeleteHandler_def
      split: prod.splits if_splits dest: save_loop_frame delete_loop_frame)

lemma mFunc_atomic_error:
  assumes "item_function mFunc" "reqAtomic req" "mFunc req resp st = (e, resp', st')"
  shows "e = None \<longleftrightarrow> ErrMap resp' = []"
  using assms
  by (auto simp: item_function_def recordutil_RecordSaveHandler_def recordutil_RecordDeleteHandler_def
      split: prod.splits if_splits)

lemma Rollback_restores:
  "snapshot st = Some (r, s) \<Longrightarrow> rows (Rollback st) = r \<and> schema (Rollback st) = s
     \<and> calls (Rollback st) = calls st @ [CallRollback] \<and> snapshot (Rollback st) = None"
  by (simp add: Rollback_def restore_def logCall_def)

lemma WithTransaction_atomic:
  assumes "reqAtomic req" and "item_function mFunc"
    and "WithTransaction (Db req)
           (\<lambda>r s. case mFunc req r s of (e, r', s') \<Rightarrow> (map_option SkyError e, r', s')) resp st
         = (txErr, resp', st')"
  shows "(txErr \<noteq> None \<or> ErrMap resp' \<noteq> [] \<longrightarrow> rows st' = rows st \<and> schema st' = schema st)
       \<and> (BeginErr (Db req) \<noteq> None \<or> CommitErr (Db req) \<noteq> None \<or> ErrMap resp' \<noteq> []
            \<longrightarrow> txErr \<noteq> None \<or> ErrMap resp' \<noteq> [])"
proof (cases "BeginErr (Db req)")
  case (Some b)
  with assms(3) show ?thesis
    by (auto simp: WithTransaction_def Begin_def logCall_def)
next
  case None
  define st1 where "st1 = logCall CallBegin (st\<lparr>snapshot := Some (rows st, schema st)\<rparr>)"
  obtain e r2 s2 where m: "mFunc req resp st1 = (e, r2, s2)"
    by (cases "mFunc req resp st1") auto
  have snap: "snapshot s2 = Some (rows st, schema st)"
    using mFunc_frame[OF assms(2) m] by (simp add: st1_def logCall_def)
  have ee: "e = None \<longleftrightarrow> ErrMap r2 = []"
    using mFunc_atomic_error[OF assms(2) assms(1) m] .
  have wt: "WithTransaction (Db req)
           (\<lambda>r s. case mFunc req r s of (e, r', s') \<Rightarrow> (map_option SkyError e, r', s')) resp st
         = (case e of Some x \<Rightarrow> (Some (SkyError x), r2, Rollback s2)
            | None \<Rightarrow> (case Commit (Db req) s2 of (err, st3) \<Rightarrow> (err, r2, st3)))"
    using None m by (simp add: WithTransaction_def Begin_def st1_def split: option.splits)
  show ?thesis
  proof (cases e)
    case (Some x)
    with assms(3) wt have "txErr = Some (SkyError x)" "resp' = r2" "st' = Rollback s2" by auto
    with Rollback_restores[OF snap] show ?thesis by simp
  next
    case eNone: None
    with ee have em: "ErrMap r2 = []" by simp
    show ?thesis
    proof (cases "CommitErr (Db req)")
      case cNone: None
      with assms(3) wt eNone have "txErr = None" "resp' = r2"
        by (auto simp: Commit_def)
      with em cNone None show ?thesis by simp
    next
      case (Some c)
      with assms(3) wt eNone have "txErr = Some (PlainError c)" "resp' = r2"
          "st' = logCall CallCommit (restore s2)"
        by (auto simp: Commit_def)
      with snap show ?thesis by (simp add: restore_def logCall_def)
    qed
  qed
qed

lemma foldl_update_map_of:
  "map_of (foldl (\<lambda>info (rid, err). AList.update (f rid) err info) info em)
     = map_of info ++ map_of (rev (map (\<lambda>(rid, e). (f rid, e)) em))"
proof (induction em arbitrary: info)
  case Nil
  then show ?case by simp
next
  case (Cons x em)
  obtain rid e where x: "x = (rid, e)" by (cases x)
  have "map_of (foldl (\<lambda>info (rid, err). AList.update (f rid) err info) info (x # em))
          = map_of (AList.update (f rid) e info) ++ map_of (rev (map (\<lambda>(rid, e). (f rid, e)) em))"
    using Cons.IH[of "AList.update (f rid) e info"] by (simp add: x)
  also have "\<dots> = (map_of info)(f rid \<mapsto> e) ++ map_of (rev (map (\<lambda>(rid, e). (f rid, e)) em))"
    by (simp only: update_conv')
  also have "\<dots> = map_of info ++ map_of (rev (map (\<lambda>(rid, e). (f rid, e)) (x # em)))"
    by (auto simp: x fun_eq_iff map_add_def split: option.splits)
  finally show ?case .
qed

lemma atomicInfo_map_of:
  "map_of (atomicInfo em) = map_of (rev (map (\<lambda>(rid, e). (RecordID_String rid, e)) em))"
  by (simp add: atomicInfo_def foldl_update_map_of)

lemma atomicInfo_keys:
  "fst ` set (atomicInfo em) = RecordID_String ` fst ` set em"
proof -
  have "fst ` set (atomicInfo em) = dom (map_of (atomicInfo em))"
    by (simp add: dom_map_of_conv_image_fst)
  also have "\<dots> = fst ` set (rev (map (\<lambda>(rid, e). (RecordID_String rid, e)) em))"
    by (simp only: atomicInfo_map_of dom_map_of_conv_image_fst)
  also have "\<dots> = RecordID_String ` fst ` set em"
    by (force simp: image_iff)
  finally show ?thesis .
qed

lemma atomicInfo_values:
  assumes "map_of (atomicInfo em) k = Some e"
  shows "\<exists>rid. (rid, e) \<in> set em \<and> RecordID_String rid = k"
proof -
  from assms have "(k, e) \<in> set (rev (map (\<lambda>(rid, e). (RecordID_String rid, e)) em))"
    by (simp only: atomicInfo_map_of) (rule map_of_SomeD)
  then show ?thesis by auto
qed

lemma map_of_unique_value:
  assumes "(k, v) \<in> set xs" and "\<forall>v'. (k, v') \<in> set xs \<longrightarrow> v' = v"
  shows "map_of xs k = Some v"
proof -
  from assms(1) obtain v' where v': "map_of xs k = Some v'"
    by (metis weak_map_of_SomeI)
  then have "(k, v') \<in> set xs" by (rule map_of_SomeD)
  with assms(2) have "v' = v" by blast
  with v' show ?thesis by (simp only:)
qed

lemma atomicInfo_own_error:
  assumes "(rid, e) \<in> set em" and "distinct (map fst em)"
    and "\<And>rid'. rid' \<in> fst ` set em \<Longrightarrow> RecordID_String rid' = RecordID_String rid \<Longrightarrow> rid' = rid"
  shows "map_of (atomicInfo em) (RecordID_String rid) = Some e"
proof -
  let ?xs = "rev (map (\<lambda>(rid, e). (RecordID_String rid, e)) em)"
  have "(RecordID_String rid, e) \<in> set ?xs" using assms(1) by force
  moreover have "v' = e" if "(RecordID_String rid, v') \<in> set ?xs" for v'
  proof -
    from that obtain rid' where r: "(rid', v') \<in> set em" "RecordID_String rid' = RecordID_String rid"
      by auto
    then have "rid' = rid" using assms(3) by force
    with r assms(1,2) show ?thesis by (meson eq_key_imp_eq_value)
  qed
  ultimately have "map_of ?xs (RecordID_String rid) = Some e"
    by (intro map_of_unique_value) blast+
  then show ?thesis by (simp only: atomicInfo_map_of)
qed

lemma RecordID_String_inj:
  assumes "CHR ''/'' \<notin> set (Type a)" "CHR ''/'' \<notin> set (Type b)"
    and "RecordID_String a = RecordID_String b"
  shows "a = b"
proof -
  let ?P = "\<lambda>c. c \<noteq> CHR ''/''"
  have tw: "takeWhile ?P (t @ CHR ''/'' # k) = t" if "CHR ''/'' \<notin> set t" for t k
  proof -
    from that have "\<forall>x\<in>set t. x \<noteq> CHR ''/''" by blast
    then show ?thesis by (simp add: takeWhile_tail)
  qed
  have dw: "dropWhile ?P (t @ CHR ''/'' # k) = CHR ''/'' # k" if "CHR ''/'' \<notin> set t" for t k
  proof -
    from that have "\<forall>x\<in>set t. x \<noteq> CHR ''/''" by blast
    then show ?thesis by (simp add: dropWhile_append3)
  qed
  from assms(3) have eq: "Type a @ CHR ''/'' # Key a = Type b @ CHR ''/'' # Key b"
    by (simp add: RecordID_String_def)
  have "Type a = takeWhile ?P (Type a @ CHR ''/'' # Key a)"
    by (rule tw[OF assms(1), symmetric])
  also have "\<dots> = takeWhile ?P (Type b @ CHR ''/'' # Key b)"
    by (simp only: eq)
  also have "\<dots> = Type b"
    by (rule tw[OF assms(2)])
  finally have t: "Type a = Type b" .
  have "CHR ''/'' # Key a = dropWhile ?P (Type a @ CHR ''/'' # Key a)"
    by (rule dw[OF assms(1), symmetric])
  also have "\<dots> = dropWhile ?P (Type b @ CHR ''/'' # Key b)"
    by (simp only: eq)
  also have "\<dots> = CHR ''/'' # Key b"
    by (rule dw[OF assms(2)])
  finally have k: "Key a = Key b" by (simp only: list.inject)
  from t k show ?thesis by (rule RecordID.equality) simp
qed

lemma saveOne_distinct:
  "saveOne db (em, sv, st) r = (em', sv', st') \<Longrightarrow> distinct (map fst em) \<Longrightarrow> distinct (map fst em')"
  by (auto simp: saveOne_def distinct_update split: option.splits)

lemma save_loop_distinct:
  "foldl (saveOne db) (em, sv, st) rs = (em', sv', st') \<Longrightarrow> distinct (map fst em)
     \<Longrightarrow> distinct (map fst em')"
proof (induction rs arbitrary: em sv st)
  case Nil
  then show ?case by simp
next
  case (Cons r rs)
  obtain em1 sv1 st1 where s: "saveOne db (em, sv, st) r = (em1, sv1, st1)"
    by (cases "saveOne db (em, sv, st) r") auto
  with Cons.prems have "foldl (saveOne db) (em1, sv1, st1) rs = (em', sv', st')" by simp
  from Cons.IH[OF this] saveOne_distinct[OF s Cons.prems(2)] show ?case by simp
qed

lemma deleteOne_distinct:
  "deleteOne db (em, st) r = (em', st') \<Longrightarrow> distinct (map fst em) \<Longrightarrow> distinct (map fst em')"
  by (auto simp: deleteOne_def distinct_update split: option.splits)

lemma delete_loop_distinct:
  "foldl (deleteOne db) (em, st) rs = (em', st') \<Longrightarrow> distinct (map fst em)
     \<Longrightarrow> distinct (map fst em')"
proof (induction rs arbitrary: em st)
  case Nil
  then show ?case by simp
next
  case (Cons r rs)
  obtain em1 st1 where s: "deleteOne db (em, st) r = (em1, st1)"
    by (cases "deleteOne db (em, st) r") auto
  with Cons.prems have "foldl (deleteOne db) (em1, st1) rs = (em', st')" by simp
  from Cons.IH[OF this] deleteOne_distinct[OF s Cons.prems(2)] show ?case by simp
qed

lemma mFunc_distinct:
  assumes "item_function mFunc" "mFunc req resp st = (e, resp', st')" "distinct (map fst (ErrMap resp))"
  shows "distinct (map fst (ErrMap resp'))"
  using assms
  by (auto simp: item_function_def recordutil_RecordSaveHandler_def recordutil_RecordDeleteHandler_def
      split: prod.splits if_splits)
    (blast intro: save_loop_distinct delete_loop_distinct)+

lemma atomicModifyFunc_distinct:
  assumes "item_function mFunc" "atomicModifyFunc mFunc req resp st = (err, resp', st')"
    "distinct (map fst (ErrMap resp))"
  shows "distinct (map fst (ErrMap resp'))"
proof (cases "Transactional (Db req) \<and> BeginErr (Db req) = None")
  case False
  with assms(2,3) show ?thesis
    by (auto simp: atomicModifyFunc_def WithTransaction_def Begin_def split: if_splits option.splits)
next
  case True
  define st1 where "st1 = snd (Begin (Db req) st)"
  obtain e r2 s2 where m: "mFunc req resp st1 = (e, r2, s2)"
    by (cases "mFunc req resp st1") auto
  have b: "Begin (Db req) st = (None, st1)" using True by (simp add: st1_def Begin_def)
  from assms(2) True m b have "resp' = r2"
    by (auto simp: atomicModifyFunc_def WithTransaction_def split: if_splits option.splits prod.splits)
  with mFunc_distinct[OF assms(1) m assms(3)] show ?thesis by simp
qed


text \<open>
  The coordinator on a database that does not implement \<open>skydb.Transactional\<close>: the
  NotSupported error, with the response and the store as they were given, whatever the
  per-item function.
\<close>

lemma atomicModifyFunc_not_transactional:
  assumes "\<not> Transactional (Db req)"
  shows "atomicModifyFunc mFunc req resp st
           = (Some (NewError NotSupported ''database impl does not support transaction''), resp, st)"
  using assms by (simp add: atomicModifyFunc_def)

lemma WithTransaction_unfold:
  "WithTransaction db body x st =
     (case BeginErr db of
        Some b \<Rightarrow> (Some (PlainError b), x, logCall CallBegin st)
      | None \<Rightarrow>
          (case body x (logCall CallBegin (st\<lparr>snapshot := Some (rows st, schema st)\<rparr>)) of
             (Some e, x', st2) \<Rightarrow> (Some e, x', Rollback st2)
           | (None, x', st2) \<Rightarrow>
               (case CommitErr db of
                  Some c \<Rightarrow> (Some (PlainError c), x', logCall CallCommit (restore st2))
                | None \<Rightarrow> (None, x', logCall CallCommit (st2\<lparr>snapshot := None\<rparr>)))))"
  by (simp add: WithTransaction_def Begin_def Commit_def split: option.splits prod.splits)

lemma WithTransaction_txErr:
  assumes "reqAtomic req" and "item_function mFunc"
    and "WithTransaction (Db req)
           (\<lambda>r s. case mFunc req r s of (e, r', s') \<Rightarrow> (map_option SkyError e, r', s')) resp st
         = (txErr, resp', st')"
    and "ErrMap resp' = []"
  shows "txErr = (case BeginErr (Db req) of
                    Some b \<Rightarrow> Some (PlainError b)
                  | None \<Rightarrow> map_option PlainError (CommitErr (Db req)))"
proof (cases "BeginErr (Db req)")
  case (Some b)
  with assms(3) show ?thesis by (simp add: WithTransaction_unfold)
next
  case None
  define st1 where "st1 = logCall CallBegin (st\<lparr>snapshot := Some (rows st, schema st)\<rparr>)"
  obtain e r2 s2 where m: "mFunc req resp st1 = (e, r2, s2)"
    by (cases "mFunc req resp st1") auto
  have ee: "e = None \<longleftrightarrow> ErrMap r2 = []"
    using mFunc_atomic_error[OF assms(2) assms(1) m] .
  show ?thesis
  proof (cases e)
    case (Some x)
    with assms(3) None m have "resp' = r2"
      by (simp add: WithTransaction_unfold st1_def)
    with ee Some assms(4) show ?thesis by simp
  next
    case eNone: None
    with assms(3) None m show ?thesis
      by (auto simp: WithTransaction_unfold st1_def split: option.splits)
  qed
qed

text \<open>
  An atomic modify request, save or delete, runs against a store that implements
  transactions, starting from an empty error map. When an item produced an error (the
  error map of the response is not empty) or begin or commit failed, the rows and the
  schema of the store are those from before the call, and the result is one
  AtomicOperationFailure error. When items failed, its info is keyed by the string form
  \<open>type/key\<close> of the failing record ids: the keys are exactly these string forms, every
  value is the error of a failing record id with that string form, and a failing record
  id whose string form no other failing record id shares is mapped to its own error.
  Otherwise the info wraps the error of the transaction: the error of begin, or the error
  of commit when begin went through. (Record ids whose types have no slash have distinct
  string forms, by \<open>RecordID_String_inj\<close>.)
\<close>

lemma atomic_failure_rolls_back:
  assumes "Transactional (Db req)" and "reqAtomic req" and "item_function mFunc"
    and "ErrMap resp = []"
    and "atomicModifyFunc mFunc req resp st = (err, resp', st')"
    and "ErrMap resp' \<noteq> [] \<or> BeginErr (Db req) \<noteq> None \<or> CommitErr (Db req) \<noteq> None"
  shows "rows st' = rows st \<and> schema st' = schema st
       \<and> (\<exists>msg info. err = Some (SkyErr AtomicOperationFailure msg info)
            \<and> (if ErrMap resp' \<noteq> []
                then info = InfoItems (atomicInfo (ErrMap resp'))
                   \<and> fst ` set (atomicInfo (ErrMap resp')) = RecordID_String ` fst ` set (ErrMap resp')
                   \<and> (\<forall>k e. map_of (atomicInfo (ErrMap resp')) k = Some e \<longrightarrow>
                         (\<exists>recordID. (recordID, e) \<in> set (ErrMap resp') \<and> RecordID_String recordID = k))
                   \<and> (\<forall>(recordID, e) \<in> set (ErrMap resp').
                         (\<forall>other \<in> fst ` set (ErrMap resp').
                            RecordID_String other = RecordID_String recordID \<longrightarrow> other = recordID)
                         \<longrightarrow> map_of (atomicInfo (ErrMap resp')) (RecordID_String recordID) = Some e)
                else \<exists>x. info = InfoInner (PlainError x)
                          \<and> (BeginErr (Db req) = Some x
                             \<or> BeginErr (Db req) = None \<and> CommitErr (Db req) = Some x)))"
proof -
  obtain txErr r2 s2 where w: "WithTransaction (Db req)
           (\<lambda>r s. case mFunc req r s of (e, r', s') \<Rightarrow> (map_option SkyError e, r', s')) resp st
         = (txErr, r2, s2)"
    by (metis prod_cases3)
  from assms(1,5) w have eq: "resp' = r2" "st' = s2"
    by (auto simp: atomicModifyFunc_def split: if_splits option.splits)
  note W = WithTransaction_atomic[OF assms(2,3) w]
  from assms(6) W eq have fail: "txErr \<noteq> None \<or> ErrMap r2 \<noteq> []" by blast
  with W eq have restored: "rows st' = rows st \<and> schema st' = schema st" by blast
  have d: "distinct (map fst (ErrMap resp'))"
    using atomicModifyFunc_distinct[OF assms(3,5)] assms(4) by simp
  have own: "\<forall>(recordID, e) \<in> set (ErrMap resp').
               (\<forall>other \<in> fst ` set (ErrMap resp').
                  RecordID_String other = RecordID_String recordID \<longrightarrow> other = recordID)
               \<longrightarrow> map_of (atomicInfo (ErrMap resp')) (RecordID_String recordID) = Some e"
    using atomicInfo_own_error[OF _ d] by blast
  have vals: "\<forall>k e. map_of (atomicInfo (ErrMap resp')) k = Some e \<longrightarrow>
                (\<exists>recordID. (recordID, e) \<in> set (ErrMap resp') \<and> RecordID_String recordID = k)"
    using atomicInfo_values by blast
  have tx: "txErr = (case BeginErr (Db req) of
                       Some b \<Rightarrow> Some (PlainError b)
                     | None \<Rightarrow> map_option PlainError (CommitErr (Db req)))"
    if "ErrMap resp' = []"
    using WithTransaction_txErr[OF assms(2,3) w] that eq by simp
  have inner: "\<exists>x. info = InfoInner (PlainError x)
                 \<and> (BeginErr (Db req) = Some x
                    \<or> BeginErr (Db req) = None \<and> CommitErr (Db req) = Some x)"
    if "ErrMap resp' = []" and "txErr = Some t" and "info = InfoInner t" for t info
    using tx[OF that(1)] that(2,3)
    by (cases "BeginErr (Db req)"; cases "CommitErr (Db req)") auto
  have shape: "\<exists>msg info. err = Some (SkyErr AtomicOperationFailure msg info)
            \<and> (if ErrMap resp' \<noteq> [] then info = InfoItems (atomicInfo (ErrMap resp'))
                else \<exists>x. info = InfoInner (PlainError x)
                          \<and> (BeginErr (Db req) = Some x
                             \<or> BeginErr (Db req) = None \<and> CommitErr (Db req) = Some x))"
  proof (cases "ErrMap resp' = []")
    case False
    with assms(1,5) w eq show ?thesis
      by (auto simp: atomicModifyFunc_def NewErrorWithInfo_def split: if_splits option.splits)
  next
    case True
    with fail eq obtain t where t: "txErr = Some t" by auto
    with assms(1,5) w True eq have "err = Some (SkyErr AtomicOperationFailure
                ''Atomic Operation rolled back due to an error'' (InfoInner t))"
      by (auto simp: atomicModifyFunc_def NewErrorWithInfo_def split: if_splits option.splits)
    with inner[OF True t refl] True show ?thesis by simp
  qed
  show ?thesis
  proof (cases "ErrMap resp' = []")
    case True
    with restored shape show ?thesis by simp
  next
    case False
    with shape obtain msg where "err = Some (SkyErr AtomicOperationFailure msg
                                       (InfoItems (atomicInfo (ErrMap resp'))))"
      by auto
    with False restored own vals atomicInfo_keys[of "ErrMap resp'"] show ?thesis
      by simp
  qed
qed


lemma atomic_failure_rolls_back_example:
  "Transactional (Db atomicSaveRequest) \<and> reqAtomic atomicSaveRequest
   \<and> item_function recordutil_RecordSaveHandler \<and> ErrMap freshResponse = []
   \<and> ErrMap (fst (snd (atomicModifyFunc recordutil_RecordSaveHandler atomicSaveRequest
                          freshResponse exampleStore)))
       = [(\<lparr>Type = ''note'', Key = ''9''\<rparr>, SkyErr PermissionDenied ''no permission to modify'' NoInfo)]
   \<and> rows (snd (snd (atomicModifyFunc recordutil_RecordSaveHandler atomicSaveRequest
                        freshResponse exampleStore))) = rows exampleStore
   \<and> fst (atomicModifyFunc recordutil_RecordSaveHandler atomicSaveRequest freshResponse exampleStore)
       = Some (SkyErr AtomicOperationFailure
                 ''Atomic Operation rolled back due to one or more errors''
                 (InfoItems [(''note/9'', SkyErr PermissionDenied ''no permission to modify'' NoInfo)]))"
  using atomic_failure_rolls_back
          [of atomicSaveRequest recordutil_RecordSaveHandler freshResponse exampleStore
              "fst (atomicModifyFunc recordutil_RecordSaveHandler atomicSaveRequest
                      freshResponse exampleStore)"
              "fst (snd (atomicModifyFunc recordutil_RecordSaveHandler atomicSaveRequest
                      freshResponse exampleStore))"
              "snd (snd (atomicModifyFunc recordutil_RecordSaveHandler atomicSaveRequest
                      freshResponse exampleStore))"]
  by (simp add: atomicModifyFunc_def WithTransaction_def Begin_def Commit_def Rollback_def restore_def
        logCall_def recordutil_RecordSaveHandler_def recordutil_RecordDeleteHandler_def saveOne_def
        deleteOne_def item_function_def atomicInfo_def RecordID_String_def NewError_def
        NewErrorWithInfo_def exampleDb_def exampleStore_def isLocked_def lockedRecord_def
        noteRecord_def freshResponse_def atomicSaveRequest_def)

text \<open>
  C4. The coordinator means to report the error of every failing record id, and keys
  the info by the id's string form. The ids \<open>(a/b, c)\<close> and \<open>(a, b/c)\<close> have the same
  string form \<open>a/b/c\<close>. In the atomic delete of both, on a store with transactions, both
  fail, with different errors, and the rows are rolled back; but the info of the
  AtomicOperationFailure has the single key \<open>a/b/c\<close>, so the error of one of the two
  failing ids is lost. Which one depends on the order in which the loop ranges over the
  error map: the error met last stays.
\<close>

theorem atomic_info_collision:
  "set (ErrMap (fst (snd (atomicModifyFunc recordutil_RecordDeleteHandler collidingDeleteRequest
                            freshResponse exampleStore))))
     = {(\<lparr>Type = ''a/b'', Key = ''c''\<rparr>, SkyErr ResourceNotFound ''record not found'' NoInfo),
        (\<lparr>Type = ''a'', Key = ''b/c''\<rparr>, SkyErr PermissionDenied ''no permission to delete'' NoInfo)}
   \<and> (fst (atomicModifyFunc recordutil_RecordDeleteHandler collidingDeleteRequest
             freshResponse exampleStore)
        = Some (SkyErr AtomicOperationFailure
                  ''Atomic Operation rolled back due to one or more errors''
                  (InfoItems [(''a/b/c'', SkyErr PermissionDenied ''no permission to delete'' NoInfo)]))
      \<or> fst (atomicModifyFunc recordutil_RecordDeleteHandler collidingDeleteRequest
               freshResponse exampleStore)
        = Some (SkyErr AtomicOperationFailure
                  ''Atomic Operation rolled back due to one or more errors''
                  (InfoItems [(''a/b/c'', SkyErr ResourceNotFound ''record not found'' NoInfo)])))
   \<and> rows (snd (snd (atomicModifyFunc recordutil_RecordDeleteHandler collidingDeleteRequest
                        freshResponse exampleStore))) = rows exampleStore
   \<and> atomicInfo
        [(\<lparr>Type = ''a/b'', Key = ''c''\<rparr>, SkyErr ResourceNotFound ''record not found'' NoInfo),
         (\<lparr>Type = ''a'', Key = ''b/c''\<rparr>, SkyErr PermissionDenied ''no permission to delete'' NoInfo)]
     = [(''a/b/c'', SkyErr PermissionDenied ''no permission to delete'' NoInfo)]
   \<and> atomicInfo
        [(\<lparr>Type = ''a'', Key = ''b/c''\<rparr>, SkyErr PermissionDenied ''no permission to delete'' NoInfo),
         (\<lparr>Type = ''a/b'', Key = ''c''\<rparr>, SkyErr ResourceNotFound ''record not found'' NoInfo)]
     = [(''a/b/c'', SkyErr ResourceNotFound ''record not found'' NoInfo)]"
  by (simp add: atomicModifyFunc_def WithTransaction_def Begin_def Commit_def Rollback_def restore_def
        logCall_def recordutil_RecordDeleteHandler_def deleteOne_def atomicInfo_def
        RecordID_String_def NewError_def NewErrorWithInfo_def exampleDb_def exampleStore_def
        isLocked_def lockedRecord_def noteRecord_def freshResponse_def collidingDeleteRequest_def)

subsection \<open>Payload validation\<close>

lemma validate_loop_Errs:
  "Errs (foldl validateItem p raws) = Errs p @ malformedErrors raws"
proof (induction raws arbitrary: p)
  case Nil
  then show ?case by (simp add: malformedErrors_def)
next
  case (Cons x raws)
  then show ?case by (cases x) (simp_all add: malformedErrors_def Let_def)
qed

lemma validate_loop_Records:
  "Records (foldl validateItem p raws) = Records p @ decodedRecords raws"
proof (induction raws arbitrary: p)
  case Nil
  then show ?case by (simp add: decodedRecords_def)
next
  case (Cons x raws)
  then show ?case by (cases x) (simp_all add: decodedRecords_def Let_def)
qed

lemma validate_loop_IncomingItems:
  "IncomingItems (foldl validateItem p raws) = IncomingItems p @ map incomingItem raws"
proof (induction raws arbitrary: p)
  case Nil
  then show ?case by simp
next
  case (Cons x raws)
  then show ?case by (cases x) (simp_all add: Let_def)
qed

lemma validate_loop_Clean:
  "Clean (foldl validateItem p raws) \<longleftrightarrow> Clean p \<and> malformedErrors raws = []"
proof (induction raws arbitrary: p)
  case Nil
  then show ?case by (simp add: malformedErrors_def)
next
  case (Cons x raws)
  then show ?case by (cases x) (simp_all add: malformedErrors_def Let_def)
qed

lemma validate_loop_Atomic:
  "Atomic (foldl validateItem p raws) = Atomic p \<and> RawMaps (foldl validateItem p raws) = RawMaps p"
proof (induction raws arbitrary: p)
  case Nil
  then show ?case by simp
next
  case (Cons x raws)
  then show ?case by (cases x) (simp_all add: Let_def)
qed

lemma save_Decode_fields:
  assumes "raws \<noteq> []"
  shows "\<exists>p. save_Decode (Some (atomic, raws)) = Inr p \<and> Atomic p = atomic \<and> RawMaps p = raws
           \<and> Errs p = malformedErrors raws \<and> Records p = decodedRecords raws
           \<and> IncomingItems p = map incomingItem raws \<and> (Clean p \<longleftrightarrow> malformedErrors raws = [])"
  using assms
  by (simp add: save_Decode_def save_Validate_def ItemLen_def validate_loop_Errs
      validate_loop_Records validate_loop_IncomingItems validate_loop_Clean validate_loop_Atomic)

lemma save_Decode_Inr:
  assumes "save_Decode data = Inr p"
  shows "\<exists>atomic raws. data = Some (atomic, raws) \<and> raws \<noteq> [] \<and> Atomic p = atomic \<and> RawMaps p = raws
           \<and> Errs p = malformedErrors raws \<and> Records p = decodedRecords raws
           \<and> IncomingItems p = map incomingItem raws \<and> (Clean p \<longleftrightarrow> malformedErrors raws = [])"
proof -
  from assms obtain atomic raws where d: "data = Some (atomic, raws)"
    by (cases data) (auto simp: save_Decode_def)
  have ne: "raws \<noteq> []"
  proof
    assume "raws = []"
    with assms d show False
      by (simp add: save_Decode_def save_Validate_def ItemLen_def)
  qed
  from save_Decode_fields[OF ne, of atomic] ne assms d show ?thesis by auto
qed

text \<open>
  C3 (amended). An atomic save batch with at least one record that fails
  de-serialization, sent to a writable database for which the result filter is built, is
  answered by a single InvalidArgument error with the message
  \<open>fails to de-serialize records\<close>; its info carries the de-serialization error of each
  malformed record, in input order. The store is returned as it was given: no record of
  the batch is saved, the schema is not extended and no call reaches the store.
\<close>

theorem atomic_save_malformed_invalid_argument:
  assumes "malformedErrors raws \<noteq> []"
    and "\<not> IsReadOnly (Database payload)"
    and "NewRecordResultFilter payload = Inr resultFilter"
  shows "save_Handle hasEventSender payload (Some (True, raws)) st
           = (Inr (errResponse (SkyErr InvalidArgument ''fails to de-serialize records''
                                  (InfoDeserialize ''records'' (malformedErrors raws)))), st)"
proof -
  from assms(1) have ne: "raws \<noteq> []" by (auto simp: malformedErrors_def)
  from save_Decode_fields[OF ne, of True] obtain p where
    p: "save_Decode (Some (True, raws)) = Inr p" "Atomic p" "Errs p = malformedErrors raws"
       "Clean p \<longleftrightarrow> malformedErrors raws = []"
    by auto
  with assms show ?thesis
    by (simp add: save_Handle_def NewErrorWithInfo_def Let_def)
qed


theorem atomic_save_malformed_invalid_argument_witness:
  "malformedErrors [Inl ''missing _id'', Inr (noteRecord ''1'' [(''age'', IntegerVal 12)])] \<noteq> []
   \<and> \<not> IsReadOnly (Database examplePayload)
   \<and> save_Handle True examplePayload
         (Some (True, [Inl ''missing _id'', Inr (noteRecord ''1'' [(''age'', IntegerVal 12)])]))
         exampleStore
       = (Inr \<lparr>Err = Some (SkyErr InvalidArgument ''fails to de-serialize records''
                             (InfoDeserialize ''records''
                                [SkyErr InvalidArgument ''missing _id'' NoInfo])),
               Result = None, RespInfo = None\<rparr>,
          exampleStore)"
  using atomic_save_malformed_invalid_argument
          [of "[Inl ''missing _id'', Inr (noteRecord ''1'' [(''age'', IntegerVal 12)])]"
              examplePayload "\<lambda>r. r\<lparr>Data := filter (\<lambda>(f, v). f \<noteq> ''secret'') (Data r)\<rparr>"
              True exampleStore]
  by (simp add: malformedErrors_def examplePayload_def exampleDb_def errResponse_def NewError_def)

text \<open>
  The claim as first stated has the error be an AtomicOperationFailure. For the batch of
  a valid note and a malformed record, the handler answers InvalidArgument.
\<close>

theorem atomic_save_malformed_counterexample:
  "save_Handle True examplePayload
     (Some (True, [Inr (noteRecord ''1'' [(''age'', IntegerVal 12)]), Inl ''missing _id'']))
     exampleStore
   = (Inr \<lparr>Err = Some (SkyErr InvalidArgument ''fails to de-serialize records''
                         (InfoDeserialize ''records''
                            [SkyErr InvalidArgument ''missing _id'' NoInfo])),
           Result = None, RespInfo = None\<rparr>,
      exampleStore)
   \<and> InvalidArgument \<noteq> AtomicOperationFailure"
  by (simp add: save_Handle_def save_Decode_def save_Validate_def ItemLen_def Let_def
        examplePayload_def exampleDb_def errResponse_def NewError_def NewErrorWithInfo_def)

subsection \<open>Non-atomic delete\<close>

lemma foldl_snoc_map: "foldl (\<lambda>results x. results @ [f x]) acc xs = acc @ map f xs"
  by (induction xs arbitrary: acc) simp_all

lemma delete_nonatomic_no_error:
  assumes "\<not> reqAtomic req"
  shows "fst (recordutil_RecordDeleteHandler req resp st) = None"
  using assms by (simp add: recordutil_RecordDeleteHandler_def split: prod.splits)

lemma parseIDs_length:
  "parseIDs bad raws = Inr ids \<Longrightarrow> length ids = length raws"
proof (induction raws arbitrary: ids)
  case Nil
  then show ?case by simp
next
  case (Cons x raws)
  then show ?case
    by (auto simp: SplitN2_def split: if_splits sum.splits)
qed

lemma SplitN2_join:
  assumes "SplitN2 s = [t, k]"
  shows "t @ ''/'' @ k = s"
proof -
  let ?P = "\<lambda>c. c \<noteq> CHR ''/''"
  from assms have slash: "CHR ''/'' \<in> set s" and t: "t = takeWhile ?P s"
    and k: "k = tl (dropWhile ?P s)"
    by (auto simp: SplitN2_def split: if_splits)
  from slash have ne: "dropWhile ?P s \<noteq> []" by (simp add: dropWhile_eq_Nil_conv)
  from hd_dropWhile[OF ne] have "hd (dropWhile ?P s) = CHR ''/''" by blast
  with ne have "dropWhile ?P s = CHR ''/'' # tl (dropWhile ?P s)"
    by (metis list.collapse)
  with t k have "t @ ''/'' @ k = takeWhile ?P s @ dropWhile ?P s" by simp
  then show ?thesis by (simp only: takeWhile_dropWhile_id)
qed

lemma parseIDs_strings:
  "parseIDs bad raws = Inr ids \<Longrightarrow> map RecordID_String ids = raws"
proof (induction raws arbitrary: ids)
  case Nil
  then show ?case by simp
next
  case (Cons x raws)
  from Cons.prems obtain t k rest where sp: "SplitN2 x = [t, k]"
    and r: "parseIDs bad raws = Inr rest" and i: "ids = \<lparr>Type = t, Key = k\<rparr> # rest"
    by (auto simp: SplitN2_def split: if_splits sum.splits)
  from SplitN2_join[OF sp] Cons.IH[OF r] i show ?case
    by (simp add: RecordID_String_def)
qed

lemma delete_Validate_length:
  assumes "delete_Validate p = Inr p'"
  shows "length (parsedRecordIDs p')
           = (if RawRecords p \<noteq> [] then length (RawRecords p) else length (DeprecatedIDs p))
         \<and> (RawRecords p \<noteq> [] \<longrightarrow> parsedRecordIDs p' = map RecordID_of (RawRecords p))
         \<and> (RawRecords p = [] \<longrightarrow> map RecordID_String (parsedRecordIDs p') = DeprecatedIDs p)
         \<and> delAtomic p' = delAtomic p"
  using assms
  by (auto simp: delete_Validate_def split: if_splits sum.splits
      dest: parseIDs_length parseIDs_strings)

text \<open>
  C2 (amended). A non-atomic delete batch that passes validation, sent to a database
  that is not read-only, is answered by a result array with one entry for each record id
  of the batch, in input order (the ids of the \<open>records\<close> field, or those of the
  deprecated \<open>ids\<close> field when there are no records). The entry of a record id is the
  serialized error, under the id's string form, when the error map of the response has
  the id, and the tombstone of the id (\<open>_id\<close>, \<open>_recordID\<close>, \<open>_recordType\<close> and
  \<open>_type\<close> equal to \<open>record\<close>) otherwise.
\<close>

theorem nonatomic_delete_results:
  assumes "delete_Decode (Some (ids, raws, False)) = Inr p"
    and "\<not> IsReadOnly (Database payload)"
  shows "\<exists>resp' st'.
           recordutil_RecordDeleteHandler
             \<lparr>Db = Database payload, RecordsToSave = [], RecordIDsToDelete = parsedRecordIDs p,
              reqAtomic = False, WithMasterKey = HasMasterKey payload\<rparr>
             \<lparr>ErrMap = [], SavedRecords = []\<rparr> st = (None, resp', st')
         \<and> delete_Handle payload (Some (ids, raws, False)) st
             = (Inr \<lparr>Err = None, Result = Some (map (deleteResult resp') (parsedRecordIDs p)),
                     RespInfo = None\<rparr>, st')
         \<and> length (map (deleteResult resp') (parsedRecordIDs p))
             = (if raws \<noteq> [] then length raws else length ids)
         \<and> (raws \<noteq> [] \<longrightarrow> parsedRecordIDs p = map RecordID_of raws)
         \<and> (raws = [] \<longrightarrow> map RecordID_String (parsedRecordIDs p) = ids)
         \<and> (\<forall>i < length (parsedRecordIDs p).
               map (deleteResult resp') (parsedRecordIDs p) ! i
                 = (case map_of (ErrMap resp') (parsedRecordIDs p ! i) of
                      Some err \<Rightarrow> SerializedError (RecordID_String (parsedRecordIDs p ! i)) err
                    | None \<Rightarrow> Tombstone (parsedRecordIDs p ! i) (Key (parsedRecordIDs p ! i))
                               (Type (parsedRecordIDs p ! i)) ''record''))"
proof -
  let ?req = "\<lparr>Db = Database payload, RecordsToSave = [], RecordIDsToDelete = parsedRecordIDs p,
              reqAtomic = False, WithMasterKey = HasMasterKey payload\<rparr>"
  let ?resp = "\<lparr>ErrMap = [], SavedRecords = []\<rparr>"
  obtain e resp' st' where run: "recordutil_RecordDeleteHandler ?req ?resp st = (e, resp', st')"
    by (metis prod_cases3)
  have "e = None" using delete_nonatomic_no_error[of ?req ?resp st] run by simp
  with run have run': "recordutil_RecordDeleteHandler ?req ?resp st = (None, resp', st')" by simp
  from assms(1) have v: "delete_Validate \<lparr>DeprecatedIDs = ids, RawRecords = raws, delAtomic = False,
                           parsedRecordIDs = []\<rparr> = Inr p"
    by (simp add: delete_Decode_def)
  from delete_Validate_length[OF v] have len: "length (parsedRecordIDs p)
           = (if raws \<noteq> [] then length raws else length ids)"
    and recs: "raws \<noteq> [] \<longrightarrow> parsedRecordIDs p = map RecordID_of raws"
    and strs: "raws = [] \<longrightarrow> map RecordID_String (parsedRecordIDs p) = ids"
    and na: "\<not> delAtomic p"
    by simp_all
  have h: "delete_Handle payload (Some (ids, raws, False)) st
             = (Inr \<lparr>Err = None, Result = Some (map (deleteResult resp') (parsedRecordIDs p)),
                     RespInfo = None\<rparr>, st')"
    using assms na run' by (simp add: delete_Handle_def Let_def foldl_snoc_map)
  have entries: "\<forall>i < length (parsedRecordIDs p).
               map (deleteResult resp') (parsedRecordIDs p) ! i
                 = (case map_of (ErrMap resp') (parsedRecordIDs p ! i) of
                      Some err \<Rightarrow> SerializedError (RecordID_String (parsedRecordIDs p ! i)) err
                    | None \<Rightarrow> Tombstone (parsedRecordIDs p ! i) (Key (parsedRecordIDs p ! i))
                               (Type (parsedRecordIDs p ! i)) ''record'')"
    by (simp add: deleteResult_def newSerializedError_def split: option.splits)
  from run' h len recs strs entries show ?thesis
    by (intro exI[of _ resp'] exI[of _ st']) simp
qed


theorem nonatomic_delete_results_witness:
  "delete_Decode (Some ([], [\<lparr>rawType = ''note'', rawKey = ''5''\<rparr>,
                             \<lparr>rawType = ''note'', rawKey = ''9''\<rparr>], False))
     = Inr \<lparr>DeprecatedIDs = [],
            RawRecords = [\<lparr>rawType = ''note'', rawKey = ''5''\<rparr>, \<lparr>rawType = ''note'', rawKey = ''9''\<rparr>],
            delAtomic = False,
            parsedRecordIDs = [\<lparr>Type = ''note'', Key = ''5''\<rparr>, \<lparr>Type = ''note'', Key = ''9''\<rparr>]\<rparr>
   \<and> \<not> IsReadOnly (Database examplePayload)
   \<and> fst (delete_Handle examplePayload
             (Some ([], [\<lparr>rawType = ''note'', rawKey = ''5''\<rparr>,
                         \<lparr>rawType = ''note'', rawKey = ''9''\<rparr>], False)) exampleStore)
     = Inr \<lparr>Err = None,
            Result = Some [Tombstone \<lparr>Type = ''note'', Key = ''5''\<rparr> ''5'' ''note'' ''record'',
                           SerializedError ''note/9''
                             (SkyErr PermissionDenied ''no permission to delete'' NoInfo)],
            RespInfo = None\<rparr>"
  using nonatomic_delete_results
          [of "[]" "[\<lparr>rawType = ''note'', rawKey = ''5''\<rparr>, \<lparr>rawType = ''note'', rawKey = ''9''\<rparr>]"
              "\<lparr>DeprecatedIDs = [],
                RawRecords = [\<lparr>rawType = ''note'', rawKey = ''5''\<rparr>,
                              \<lparr>rawType = ''note'', rawKey = ''9''\<rparr>],
                delAtomic = False,
                parsedRecordIDs = [\<lparr>Type = ''note'', Key = ''5''\<rparr>, \<lparr>Type = ''note'', Key = ''9''\<rparr>]\<rparr>"
              examplePayload exampleStore]
  by (simp add: delete_Decode_def delete_Validate_def RecordID_of_def examplePayload_def
        exampleDb_def exampleStore_def recordutil_RecordDeleteHandler_def deleteOne_def
        isLocked_def lockedRecord_def noteRecord_def logCall_def deleteResult_def
        newSerializedError_def RecordID_String_def NewError_def)

text \<open>
  The claim as first stated holds of every non-atomic batch that passes validation. On a
  read-only database the handler answers NotSupported and there is no result array.
\<close>

theorem readonly_delete_counterexample:
  "delete_Decode (Some ([], [\<lparr>rawType = ''note'', rawKey = ''5''\<rparr>], False))
     = Inr \<lparr>DeprecatedIDs = [], RawRecords = [\<lparr>rawType = ''note'', rawKey = ''5''\<rparr>],
            delAtomic = False, parsedRecordIDs = [\<lparr>Type = ''note'', Key = ''5''\<rparr>]\<rparr>
   \<and> delete_Handle (examplePayload\<lparr>Database := exampleDb\<lparr>IsReadOnly := True\<rparr>\<rparr>)
        (Some ([], [\<lparr>rawType = ''note'', rawKey = ''5''\<rparr>], False)) exampleStore
     = (Inr \<lparr>Err = Some (SkyErr NotSupported
                            ''modifying the selected database is not supported'' NoInfo),
             Result = None, RespInfo = None\<rparr>,
        exampleStore)"
  by (simp add: delete_Handle_def delete_Decode_def delete_Validate_def RecordID_of_def
        examplePayload_def exampleDb_def errResponse_def NewError_def)

subsection \<open>Schema extension\<close>

lemma extendFields_Inr:
  "extendFields rt fs (s, c) = Inr (s', c') \<Longrightarrow>
     s \<subseteq>\<^sub>m s' \<and> (\<forall>(f, v) \<in> set fs. s' (rt, f) = Some (TypeOf v))"
proof (induction fs arbitrary: s c)
  case Nil
  then show ?case by simp
next
  case (Cons x fs)
  obtain f v where x: "x = (f, v)" by (cases x)
  show ?case
  proof (cases "s (rt, f)")
    case None
    with Cons.prems x have "extendFields rt fs (s((rt, f) \<mapsto> TypeOf v), True) = Inr (s', c')"
      by simp
    from Cons.IH[OF this] have le: "s((rt, f) \<mapsto> TypeOf v) \<subseteq>\<^sub>m s'"
      and rest: "\<forall>(f, v) \<in> set fs. s' (rt, f) = Some (TypeOf v)" by blast+
    from le have here: "s' (rt, f) = Some (TypeOf v)"
      by (metis domI fun_upd_same map_le_def)
    from None have "s \<subseteq>\<^sub>m s((rt, f) \<mapsto> TypeOf v)"
      by (auto simp: map_le_def)
    with le have "s \<subseteq>\<^sub>m s'" by (metis map_le_trans)
    with here rest x show ?thesis by simp
  next
    case (Some t)
    with Cons.prems x have t: "t = TypeOf v" and r: "extendFields rt fs (s, c) = Inr (s', c')"
      by (simp_all split: if_splits)
    from Cons.IH[OF r] have le: "s \<subseteq>\<^sub>m s'"
      and rest: "\<forall>(f, v) \<in> set fs. s' (rt, f) = Some (TypeOf v)" by simp_all
    from le Some t have "s' (rt, f) = Some (TypeOf v)"
      by (metis domI map_le_def)
    with le rest x show ?thesis by simp
  qed
qed

lemma extendFields_Inl:
  "extendFields rt fs acc = Inl e \<Longrightarrow> Code e = IncompatibleSchema"
proof (induction rt fs acc rule: extendFields.induct)
  case (1 rt acc)
  then show ?case by simp
next
  case (2 rt f v rest s changed)
  then show ?case
    by (auto simp: NewErrorWithInfo_def split: option.splits if_splits)
qed

lemma extendRecords_Inr:
  "extendRecords rs (s, c) = Inr (s', c') \<Longrightarrow>
     s \<subseteq>\<^sub>m s' \<and> (\<forall>r \<in> set rs. \<forall>(f, v) \<in> set (Data r). s' (Type (ID r), f) = Some (TypeOf v))"
proof (induction rs arbitrary: s c)
  case Nil
  then show ?case by simp
next
  case (Cons r rs)
  from Cons.prems obtain s1 c1 where f: "extendFields (Type (ID r)) (Data r) (s, c) = Inr (s1, c1)"
    and rest: "extendRecords rs (s1, c1) = Inr (s', c')"
    by (auto split: sum.splits)
  from extendFields_Inr[OF f] have le1: "s \<subseteq>\<^sub>m s1"
    and here: "\<forall>(f, v) \<in> set (Data r). s1 (Type (ID r), f) = Some (TypeOf v)" by simp_all
  from Cons.IH[OF rest] have le2: "s1 \<subseteq>\<^sub>m s'"
    and others: "\<forall>r \<in> set rs. \<forall>(f, v) \<in> set (Data r). s' (Type (ID r), f) = Some (TypeOf v)"
    by simp_all
  have "\<forall>(f, v) \<in> set (Data r). s' (Type (ID r), f) = Some (TypeOf v)"
  proof (clarify)
    fix f v assume "(f, v) \<in> set (Data r)"
    with here have "s1 (Type (ID r), f) = Some (TypeOf v)" by blast
    with le2 show "s' (Type (ID r), f) = Some (TypeOf v)" by (metis domI map_le_def)
  qed
  moreover from le1 le2 have "s \<subseteq>\<^sub>m s'" by (rule map_le_trans)
  ultimately show ?case using others by simp
qed

lemma extendRecords_Inl:
  "extendRecords rs acc = Inl e \<Longrightarrow> Code e = IncompatibleSchema"
proof (induction rs arbitrary: acc)
  case Nil
  then show ?case by simp
next
  case (Cons r rs)
  then show ?case
    by (auto split: sum.splits dest: extendFields_Inl)
qed

lemma extendRecords_conflict:
  assumes "r \<in> set rs" and "(f, v) \<in> set (Data r)" and "s (Type (ID r), f) = Some t"
    and "t \<noteq> TypeOf v"
  shows "\<exists>e. extendRecords rs (s, c) = Inl e \<and> Code e = IncompatibleSchema"
proof (cases "extendRecords rs (s, c)")
  case (Inl e)
  with extendRecords_Inl[OF Inl] show ?thesis by simp
next
  case (Inr acc)
  obtain s' c' where "acc = (s', c')" by (cases acc)
  with Inr have ok: "extendRecords rs (s, c) = Inr (s', c')" by simp
  from extendRecords_Inr[OF ok] assms(1,2) have le: "s \<subseteq>\<^sub>m s'"
    and "s' (Type (ID r), f) = Some (TypeOf v)" by auto
  moreover from le assms(3) have "s' (Type (ID r), f) = Some t" by (metis domI map_le_def)
  ultimately have "t = TypeOf v" by simp
  with assms(4) show ?thesis by simp
qed

text \<open>
  C7 (amended). A save batch passes validation on a writable database for which the
  result filter is built and, when it is atomic, has no malformed record. When a value of
  one of its de-serialized records has an inferred type other than the type the schema
  already declares for that field, the whole batch is rejected with an
  IncompatibleSchema error: the only call that reached the store is the schema
  extension, no row is written, and the stored schema is the one from before, with the
  declared type of the field.
\<close>

theorem schema_conflict_rejects_batch:
  assumes "save_Decode data = Inr p"
    and "\<not> IsReadOnly (Database payload)"
    and "NewRecordResultFilter payload = Inr resultFilter"
    and "Atomic p \<longrightarrow> Clean p"
    and "r \<in> set (Records p)" and "(fld, v) \<in> set (Data r)"
    and "schema st (Type (ID r), fld) = Some t" and "t \<noteq> TypeOf v"
  shows "\<exists>e. save_Handle hasEventSender payload data st
                = (Inr (errResponse e), logCall CallExtendSchema st)
              \<and> Code e = IncompatibleSchema
              \<and> rows (logCall CallExtendSchema st) = rows st
              \<and> schema (logCall CallExtendSchema st) = schema st
              \<and> schema (logCall CallExtendSchema st) (Type (ID r), fld) = Some t"
proof -
  from extendRecords_conflict[of r "Records p" fld v "schema st" t False] assms(5-8) obtain e
    where e: "extendRecords (Records p) (schema st, False) = Inl e" "Code e = IncompatibleSchema"
    by blast
  then have x: "ExtendRecordSchema (Database payload) (Records p) st
                  = (Inl (SkyError e), logCall CallExtendSchema st)"
    by (simp add: ExtendRecordSchema_def)
  from assms(1-4) x have "save_Handle hasEventSender payload data st
                = (Inr (errResponse e), logCall CallExtendSchema st)"
    by (auto simp: save_Handle_def Let_def)
  with e(2) assms(7) show ?thesis
    by (intro exI[of _ e]) (simp add: logCall_def)
qed


theorem schema_conflict_rejects_batch_witness:
  "save_Decode (Some (False, [Inr (noteRecord ''1'' [(''age'', StringVal ''twelve'')])]))
     = Inr \<lparr>Atomic = False, RawMaps = [Inr (noteRecord ''1'' [(''age'', StringVal ''twelve'')])],
            IncomingItems = [ItemID \<lparr>Type = ''note'', Key = ''1''\<rparr>],
            Records = [noteRecord ''1'' [(''age'', StringVal ''twelve'')]],
            Errs = [], Clean = True\<rparr>
   \<and> \<not> IsReadOnly (Database examplePayload)
   \<and> schema exampleStore (''note'', ''age'') = Some TypeInteger
   \<and> TypeInteger \<noteq> TypeOf (StringVal ''twelve'')
   \<and> save_Handle True examplePayload
         (Some (False, [Inr (noteRecord ''1'' [(''age'', StringVal ''twelve'')])])) exampleStore
       = (Inr \<lparr>Err = Some (SkyErr IncompatibleSchema ''conflicting schema of field note.age''
                             (InfoArguments [''age''])),
               Result = None, RespInfo = None\<rparr>,
          logCall CallExtendSchema exampleStore)
   \<and> schema (logCall CallExtendSchema exampleStore) (''note'', ''age'') = Some TypeInteger"
  using schema_conflict_rejects_batch
          [of "Some (False, [Inr (noteRecord ''1'' [(''age'', StringVal ''twelve'')])])"
              "\<lparr>Atomic = False, RawMaps = [Inr (noteRecord ''1'' [(''age'', StringVal ''twelve'')])],
                IncomingItems = [ItemID \<lparr>Type = ''note'', Key = ''1''\<rparr>],
                Records = [noteRecord ''1'' [(''age'', StringVal ''twelve'')]],
                Errs = [], Clean = True\<rparr>"
              examplePayload "\<lambda>r. r\<lparr>Data := filter (\<lambda>(f, v). f \<noteq> ''secret'') (Data r)\<rparr>"
              "noteRecord ''1'' [(''age'', StringVal ''twelve'')]" "''age''" "StringVal ''twelve''"
              exampleStore TypeInteger True]
  by (simp add: save_Decode_def save_Validate_def ItemLen_def noteRecord_def examplePayload_def
        exampleDb_def exampleStore_def logCall_def save_Handle_def ExtendRecordSchema_def
        errResponse_def NewErrorWithInfo_def Let_def)

text \<open>
  The claim as first stated holds of every save batch. An atomic batch with a conflicting
  value in one record and a malformed sibling is rejected before the schema is looked at,
  with InvalidArgument.
\<close>

theorem schema_conflict_atomic_malformed_counterexample:
  "schema exampleStore (''note'', ''age'') = Some TypeInteger
   \<and> TypeOf (StringVal ''twelve'') = TypeString
   \<and> save_Handle True examplePayload
         (Some (True, [Inr (noteRecord ''1'' [(''age'', StringVal ''twelve'')]), Inl ''missing _id'']))
         exampleStore
       = (Inr \<lparr>Err = Some (SkyErr InvalidArgument ''fails to de-serialize records''
                             (InfoDeserialize ''records''
                                [SkyErr InvalidArgument ''missing _id'' NoInfo])),
               Result = None, RespInfo = None\<rparr>,
          exampleStore)"
  by (simp add: save_Handle_def save_Decode_def save_Validate_def ItemLen_def Let_def
        examplePayload_def exampleDb_def exampleStore_def errResponse_def NewError_def
        NewErrorWithInfo_def)

subsection \<open>Schema extension and the transaction\<close>

lemma saveOne_calls:
  "saveOne db (em, sv, st) r = (em', sv', st') \<Longrightarrow> calls st' = calls st @ [CallSave (ID r)]"
  by (auto simp: saveOne_def logCall_def split: option.splits)

lemma save_loop_calls:
  "foldl (saveOne db) (em, sv, st) rs = (em', sv', st') \<Longrightarrow>
     calls st' = calls st @ map (\<lambda>r. CallSave (ID r)) rs"
proof (induction rs arbitrary: em sv st)
  case Nil
  then show ?case by simp
next
  case (Cons r rs)
  obtain em1 sv1 st1 where s: "saveOne db (em, sv, st) r = (em1, sv1, st1)"
    by (cases "saveOne db (em, sv, st) r") auto
  with Cons.prems have "foldl (saveOne db) (em1, sv1, st1) rs = (em', sv', st')" by simp
  from Cons.IH[OF this] saveOne_calls[OF s] show ?case by simp
qed

lemma deleteOne_calls:
  "deleteOne db (em, st) r = (em', st') \<Longrightarrow> calls st' = calls st @ [CallDelete r]"
  by (auto simp: deleteOne_def logCall_def split: option.splits)

lemma delete_loop_calls:
  "foldl (deleteOne db) (em, st) rs = (em', st') \<Longrightarrow> calls st' = calls st @ map CallDelete rs"
proof (induction rs arbitrary: em st)
  case Nil
  then show ?case by simp
next
  case (Cons r rs)
  obtain em1 st1 where s: "deleteOne db (em, st) r = (em1, st1)"
    by (cases "deleteOne db (em, st) r") auto
  with Cons.prems have "foldl (deleteOne db) (em1, st1) rs = (em', st')" by simp
  from Cons.IH[OF this] deleteOne_calls[OF s] show ?case by simp
qed

lemma mFunc_calls:
  assumes "item_function mFunc" "mFunc req resp st = (e, resp', st')"
  shows "\<exists>cs. calls st' = calls st @ cs \<and> CallExtendSchema \<notin> set cs"
proof -
  from assms have "calls st' = calls st @ map (\<lambda>r. CallSave (ID r)) (RecordsToSave req)
                 \<or> calls st' = calls st @ map CallDelete (RecordIDsToDelete req)"
    by (auto simp: item_function_def recordutil_RecordSaveHandler_def
          recordutil_RecordDeleteHandler_def
        split: prod.splits if_splits dest: save_loop_calls delete_loop_calls)
  then show ?thesis by auto
qed

lemma atomicModifyFunc_calls:
  assumes "item_function mFunc" "atomicModifyFunc mFunc req resp st = (err, resp', st')"
  shows "\<exists>cs. calls st' = calls st @ cs \<and> CallExtendSchema \<notin> set cs"
proof (cases "Transactional (Db req) \<and> BeginErr (Db req) = None")
  case False
  with assms(2) have "st' = st \<or> st' = logCall CallBegin st"
    by (auto simp: atomicModifyFunc_def WithTransaction_unfold split: if_splits option.splits)
  then show ?thesis by (auto simp: logCall_def)
next
  case True
  define st1 where "st1 = logCall CallBegin (st\<lparr>snapshot := Some (rows st, schema st)\<rparr>)"
  obtain e r2 s2 where m: "mFunc req resp st1 = (e, r2, s2)"
    by (cases "mFunc req resp st1") auto
  from mFunc_calls[OF assms(1) m] obtain cs where
    cs: "calls s2 = calls st1 @ cs" "CallExtendSchema \<notin> set cs" by blast
  have c1: "calls st1 = calls st @ [CallBegin]" by (simp add: st1_def logCall_def)
  from assms(2) True m have "st' = Rollback s2 \<or> st' = logCall CallCommit (restore s2)
      \<or> st' = logCall CallCommit (s2\<lparr>snapshot := None\<rparr>)"
    by (auto simp: atomicModifyFunc_def WithTransaction_unfold st1_def
        split: if_splits option.splits prod.splits)
  then have "calls st' = calls s2 @ [CallRollback] \<or> calls st' = calls s2 @ [CallCommit]"
    by (auto simp: Rollback_def logCall_def restore_def split: option.splits)
  with cs c1 show ?thesis by auto
qed

lemma atomic_failure_restores:
  assumes "item_function mFunc" "reqAtomic req"
    and "atomicModifyFunc mFunc req resp st = (Some e, resp', st')"
  shows "rows st' = rows st \<and> schema st' = schema st"
proof (cases "Transactional (Db req)")
  case False
  with assms(3) show ?thesis by (simp add: atomicModifyFunc_def)
next
  case True
  obtain txErr r2 s2 where w: "WithTransaction (Db req)
           (\<lambda>r s. case mFunc req r s of (e, r', s') \<Rightarrow> (map_option SkyError e, r', s')) resp st
         = (txErr, r2, s2)"
    by (metis prod_cases3)
  from True assms(3) w have eq: "resp' = r2" "st' = s2" and fail: "txErr \<noteq> None \<or> ErrMap r2 \<noteq> []"
    by (auto simp: atomicModifyFunc_def split: if_splits option.splits)
  from WithTransaction_atomic[OF assms(2,1) w] fail eq show ?thesis by blast
qed

lemma ExtendRecordSchema_Inr:
  assumes "ExtendRecordSchema db records st = (Inr changed, st1)"
  shows "rows st1 = rows st \<and> calls st1 = calls st @ [CallExtendSchema]
       \<and> (\<forall>r \<in> set records. \<forall>(f, v) \<in> set (Data r). schema st1 (Type (ID r), f) = Some (TypeOf v))
       \<and> schema st \<subseteq>\<^sub>m schema st1"
proof -
  from assms obtain s where ok: "extendRecords records (schema st, False) = Inr (s, changed)"
    and st1: "st1 = logCall CallExtendSchema (st\<lparr>schema := s\<rparr>)"
    by (auto simp: ExtendRecordSchema_def split: sum.splits option.splits prod.splits)
  from extendRecords_Inr[OF ok] st1 show ?thesis by (simp add: logCall_def)
qed

lemma failed_atomic_save_keeps_schema:
  assumes "save_Decode data = Inr p" and "Atomic p" and "Clean p"
    and "\<not> IsReadOnly (Database payload)"
    and "NewRecordResultFilter payload = Inr resultFilter"
    and "ExtendRecordSchema (Database payload) (Records p) st = (Inr changed, st1)"
    and "save_Handle hasEventSender payload data st = (Inr response, st')"
    and "Err response \<noteq> None"
  shows "schema st' = schema st1
       \<and> (\<forall>r \<in> set (Records p). \<forall>(f, v) \<in> set (Data r).
             schema st' (Type (ID r), f) = Some (TypeOf v))
       \<and> rows st' = rows st
       \<and> (\<exists>cs. calls st' = calls st @ CallExtendSchema # cs \<and> CallExtendSchema \<notin> set cs)"
proof -
  let ?req = "\<lparr>Db = Database payload, RecordsToSave = Records p, RecordIDsToDelete = [],
               reqAtomic = Atomic p, WithMasterKey = HasMasterKey payload\<rparr>"
  let ?resp = "\<lparr>ErrMap = [], SavedRecords = []\<rparr>"
  obtain err resp' st2 where run:
    "atomicModifyFunc recordutil_RecordSaveHandler ?req ?resp st1 = (err, resp', st2)"
    by (metis prod_cases3)
  have item: "item_function recordutil_RecordSaveHandler" by (simp add: item_function_def)
  from assms(1-8) run have "err \<noteq> None \<and> st' = st2"
    by (auto simp: save_Handle_def Let_def split: option.splits sum.splits if_splits)
  then obtain e where e: "err = Some e" and st': "st' = st2" by auto
  from atomic_failure_restores[OF item _ run[unfolded e]] assms(2)
  have restored: "rows st2 = rows st1 \<and> schema st2 = schema st1" by simp
  from atomicModifyFunc_calls[OF item run] obtain cs where
    cs: "calls st2 = calls st1 @ cs" "CallExtendSchema \<notin> set cs" by blast
  from ExtendRecordSchema_Inr[OF assms(6)] restored cs st' show ?thesis by simp
qed


lemma ExtendRecordSchema_calls:
  "ExtendRecordSchema db records st = (x, st1) \<Longrightarrow>
     calls st1 = calls st @ [CallExtendSchema] \<and> rows st1 = rows st"
  by (auto simp: ExtendRecordSchema_def logCall_def split: sum.splits option.splits prod.splits)

lemma save_Handle_calls:
  "calls (snd (save_Handle hasEventSender payload data st)) = calls st
   \<or> (\<exists>cs. calls (snd (save_Handle hasEventSender payload data st))
              = calls st @ CallExtendSchema # cs
            \<and> CallExtendSchema \<notin> set cs)"
proof (cases "\<exists>p resultFilter. save_Decode data = Inr p \<and> \<not> IsReadOnly (Database payload)
                \<and> NewRecordResultFilter payload = Inr resultFilter \<and> \<not> (Atomic p \<and> \<not> Clean p)")
  case False
  then have "snd (save_Handle hasEventSender payload data st) = st"
    by (auto simp: save_Handle_def Let_def split: sum.splits)
  then show ?thesis by simp
next
  case True
  then obtain p resultFilter where p: "save_Decode data = Inr p"
    and rw: "\<not> IsReadOnly (Database payload)"
    and rf: "NewRecordResultFilter payload = Inr resultFilter"
    and cl: "\<not> (Atomic p \<and> \<not> Clean p)" by blast
  let ?req = "\<lparr>Db = Database payload, RecordsToSave = Records p, RecordIDsToDelete = [],
               reqAtomic = Atomic p, WithMasterKey = HasMasterKey payload\<rparr>"
  let ?resp = "\<lparr>ErrMap = [], SavedRecords = []\<rparr>"
  let ?saveFunc = "if Atomic p then atomicModifyFunc recordutil_RecordSaveHandler
                   else recordutil_RecordSaveHandler"
  obtain x st1 where ext: "ExtendRecordSchema (Database payload) (Records p) st = (x, st1)"
    by (cases "ExtendRecordSchema (Database payload) (Records p) st") auto
  from ExtendRecordSchema_calls[OF ext] have c1: "calls st1 = calls st @ [CallExtendSchema]"
    by simp
  obtain err resp' st2 where run: "?saveFunc ?req ?resp st1 = (err, resp', st2)"
    by (metis prod_cases3)
  have item: "item_function recordutil_RecordSaveHandler" by (simp add: item_function_def)
  have "\<exists>cs. calls st2 = calls st1 @ cs \<and> CallExtendSchema \<notin> set cs"
  proof (cases "Atomic p")
    case True
    with run have "atomicModifyFunc recordutil_RecordSaveHandler ?req ?resp st1 = (err, resp', st2)"
      by simp
    from atomicModifyFunc_calls[OF item this] show ?thesis .
  next
    case False
    with run have "recordutil_RecordSaveHandler ?req ?resp st1 = (err, resp', st2)"
      by simp
    from mFunc_calls[OF item this] show ?thesis .
  qed
  then obtain cs where cs: "calls st2 = calls st1 @ cs" "CallExtendSchema \<notin> set cs"
    by blast
  have h: "calls (snd (save_Handle hasEventSender payload data st)) = calls st1
     \<or> calls (snd (save_Handle hasEventSender payload data st)) = calls st2"
  proof (cases x)
    case (Inl e)
    with p rw rf cl ext show ?thesis
      by (cases e) (auto simp: save_Handle_def Let_def)
  next
    case (Inr changed)
    show ?thesis
    proof (cases err)
      case (Some e)
      with Inr p rw rf cl ext run show ?thesis
        by (auto simp: save_Handle_def Let_def)
    next
      case None
      with Inr p rw rf cl ext run show ?thesis
        by (auto simp: save_Handle_def Let_def split: sum.splits)
    qed
  qed
  from h c1 cs show ?thesis by auto
qed

text \<open>
  C6. In every run of the save handler the schema extension, when it is reached, is the
  first call to the store and the only one of its kind: begin, the saves and the commit
  or rollback of an atomic save all come after it, so the extension is outside the
  transaction. And in an atomic save of a clean batch that reached the schema step and
  extended the schema, a save that then fails leaves the extended schema in place: the
  schema of the final store is the one the extension wrote, every field of every record
  of the batch is declared with the type of its value, and the rows are those from
  before the request.
\<close>

theorem schema_extension_survives_rollback:
  "(calls (snd (save_Handle hasEventSender payload data st)) = calls st
    \<or> (\<exists>cs. calls (snd (save_Handle hasEventSender payload data st))
               = calls st @ CallExtendSchema # cs
             \<and> CallExtendSchema \<notin> set cs))
   \<and> (save_Decode data = Inr p \<and> Atomic p \<and> Clean p
        \<and> \<not> IsReadOnly (Database payload)
        \<and> NewRecordResultFilter payload = Inr resultFilter
        \<and> ExtendRecordSchema (Database payload) (Records p) st = (Inr changed, st1)
        \<and> save_Handle hasEventSender payload data st = (Inr response, st')
        \<and> Err response \<noteq> None
      \<longrightarrow> schema st' = schema st1
          \<and> (\<forall>r \<in> set (Records p). \<forall>(f, v) \<in> set (Data r).
                schema st' (Type (ID r), f) = Some (TypeOf v))
          \<and> rows st' = rows st)"
  using save_Handle_calls[of hasEventSender payload data st]
        failed_atomic_save_keeps_schema[of data p payload resultFilter st changed st1
                                           hasEventSender response st']
  by blast

theorem schema_extension_survives_rollback_witness:
  "save_Decode (Some (True, titledBatch))
     = Inr \<lparr>Atomic = True, RawMaps = titledBatch,
            IncomingItems = [ItemID \<lparr>Type = ''note'', Key = ''1''\<rparr>, ItemID \<lparr>Type = ''note'', Key = ''9''\<rparr>],
            Records = decodedRecords titledBatch, Errs = [], Clean = True\<rparr>
   \<and> \<not> IsReadOnly (Database examplePayload)
   \<and> fst (ExtendRecordSchema (Database examplePayload) (decodedRecords titledBatch) exampleStore)
       = Inr True
   \<and> fst (save_Handle True examplePayload (Some (True, titledBatch)) exampleStore)
       = Inr \<lparr>Err = Some (SkyErr AtomicOperationFailure
                             ''Atomic Operation rolled back due to one or more errors''
                             (InfoItems [(''note/9'',
                                SkyErr PermissionDenied ''no permission to modify'' NoInfo)])),
              Result = None, RespInfo = None\<rparr>
   \<and> schema exampleStore (''note'', ''title'') = None
   \<and> schema (snd (save_Handle True examplePayload (Some (True, titledBatch)) exampleStore))
         (''note'', ''title'') = Some TypeString
   \<and> rows (snd (save_Handle True examplePayload (Some (True, titledBatch)) exampleStore))
       = rows exampleStore
   \<and> calls (snd (save_Handle True examplePayload (Some (True, titledBatch)) exampleStore))
       = [CallExtendSchema, CallBegin, CallSave \<lparr>Type = ''note'', Key = ''1''\<rparr>,
          CallSave \<lparr>Type = ''note'', Key = ''9''\<rparr>, CallRollback]"
  using schema_extension_survives_rollback
          [where data = "Some (True, titledBatch)"
             and p = "\<lparr>Atomic = True, RawMaps = titledBatch,
                       IncomingItems = [ItemID \<lparr>Type = ''note'', Key = ''1''\<rparr>,
                                        ItemID \<lparr>Type = ''note'', Key = ''9''\<rparr>],
                       Records = decodedRecords titledBatch, Errs = [], Clean = True\<rparr>"
             and payload = examplePayload
             and resultFilter = "\<lambda>r. r\<lparr>Data := filter (\<lambda>(f, v). f \<noteq> ''secret'') (Data r)\<rparr>"
             and st = exampleStore and changed = True
             and ?st1.0 = "snd (ExtendRecordSchema (Database examplePayload)
                                 (decodedRecords titledBatch) exampleStore)"
             and hasEventSender = True
             and response = "\<lparr>Err = Some (SkyErr AtomicOperationFailure
                                ''Atomic Operation rolled back due to one or more errors''
                                (InfoItems [(''note/9'',
                                   SkyErr PermissionDenied ''no permission to modify'' NoInfo)])),
                              Result = None, RespInfo = None\<rparr>"
             and st' = "snd (save_Handle True examplePayload (Some (True, titledBatch))
                               exampleStore)"]
  by (simp add: save_Decode_def save_Validate_def ItemLen_def titledBatch_def decodedRecords_def
        noteRecord_def examplePayload_def exampleDb_def exampleStore_def logCall_def
        save_Handle_def ExtendRecordSchema_def errResponse_def NewErrorWithInfo_def NewError_def
        Let_def atomicModifyFunc_def WithTransaction_def Begin_def Commit_def Rollback_def
        restore_def recordutil_RecordSaveHandler_def saveOne_def isLocked_def lockedRecord_def
        atomicInfo_def RecordID_String_def)

subsection \<open>Non-atomic save\<close>

lemma makeResults_aligned:
  assumes "SavedRecords resp
             = pre @ filter (\<lambda>r. map_of (ErrMap resp) (ID r) = None) (decodedRecords raws)"
    and "length pre = idx"
  shows "makeResultsFromIncomingItem (map incomingItem raws) resp resultFilter idx acc
           = Inr (acc @ map (saveResult resp resultFilter) raws)"
  using assms
proof (induction raws arbitrary: pre idx acc)
  case Nil
  then show ?case by simp
next
  case (Cons x raws)
  show ?case
  proof (cases x)
    case (Inl msg)
    with Cons.prems have "SavedRecords resp
             = pre @ filter (\<lambda>r. map_of (ErrMap resp) (ID r) = None) (decodedRecords raws)"
      by (simp add: decodedRecords_def)
    from Cons.IH[OF this Cons.prems(2)] Inl show ?thesis
      by (simp add: newSerializedError_def)
  next
    case (Inr r)
    show ?thesis
    proof (cases "map_of (ErrMap resp) (ID r)")
      case (Some e)
      with Cons.prems Inr have "SavedRecords resp
             = pre @ filter (\<lambda>r. map_of (ErrMap resp) (ID r) = None) (decodedRecords raws)"
        by (simp add: decodedRecords_def)
      from Cons.IH[OF this Cons.prems(2)] Inr Some show ?thesis
        by (simp add: newSerializedError_def)
    next
      case None
      with Cons.prems Inr have sv: "SavedRecords resp
             = (pre @ [r]) @ filter (\<lambda>r. map_of (ErrMap resp) (ID r) = None) (decodedRecords raws)"
        by (simp add: decodedRecords_def)
      have len: "length (pre @ [r]) = Suc idx" using Cons.prems(2) by simp
      from sv Cons.prems(2) have nth: "SavedRecords resp ! idx = r"
        and lt: "idx < length (SavedRecords resp)"
        by (simp_all add: nth_append)
      from Cons.IH[OF sv len] Inr None nth lt show ?thesis
        by simp
    qed
  qed
qed

lemma save_loop_result:
  assumes "foldl (saveOne db) (em, sv, st) rs = (em', sv', st')"
    and "distinct (map ID rs)" and "ID ` set rs \<inter> fst ` set em = {}"
  shows "sv' = sv @ filter (\<lambda>r. map_of em' (ID r) = None) rs
       \<and> map (\<lambda>r. map_of em' (ID r)) rs = saveOutcomes db (rows st) rs
       \<and> (\<forall>k. k \<notin> ID ` set rs \<longrightarrow> map_of em' k = map_of em k \<and> rows st' k = rows st k)
       \<and> (\<forall>r \<in> set rs. map_of em' (ID r) = None \<longrightarrow> rows st' (ID r) = Some r)"
  using assms
proof (induction rs arbitrary: em sv st)
  case Nil
  then show ?case by simp
next
  case (Cons r rs)
  from Cons.prems(2) have d: "distinct (map ID rs)" and fresh: "ID r \<notin> ID ` set rs" by auto
  from Cons.prems(3) have nokey: "map_of em (ID r) = None"
    by (auto simp: map_of_eq_None_iff)
  show ?case
  proof (cases "SaveErr db (rows st) r")
    case (Some e)
    let ?em1 = "AList.update (ID r) e em"
    let ?st1 = "logCall (CallSave (ID r)) st"
    from Some have step: "saveOne db (em, sv, st) r = (?em1, sv, ?st1)"
      by (simp add: saveOne_def)
    from Cons.prems(1) have run: "foldl (saveOne db) (?em1, sv, ?st1) rs = (em', sv', st')"
      by (simp add: step)
    from Cons.prems(3) fresh have disj: "ID ` set rs \<inter> fst ` set ?em1 = {}"
      by (auto simp: dom_update)
    from Cons.IH[OF run d disj] have
      a: "sv' = sv @ filter (\<lambda>r. map_of em' (ID r) = None) rs"
      and b: "map (\<lambda>r. map_of em' (ID r)) rs = saveOutcomes db (rows ?st1) rs"
      and c: "\<forall>k. k \<notin> ID ` set rs \<longrightarrow> map_of em' k = map_of ?em1 k \<and> rows st' k = rows ?st1 k"
      and e: "\<forall>r \<in> set rs. map_of em' (ID r) = None \<longrightarrow> rows st' (ID r) = Some r"
      by blast+
    from c fresh have here: "map_of em' (ID r) = Some e"
      by (simp add: update_conv')
    have rows1: "rows ?st1 = rows st" by (simp add: logCall_def)
    from c rows1 have c': "\<forall>k. k \<notin> ID ` set (r # rs)
                             \<longrightarrow> map_of em' k = map_of em k \<and> rows st' k = rows st k"
      by (simp add: update_conv')
    from a b c' e here rows1 Some show ?thesis by simp
  next
    case None
    let ?st1 = "logCall (CallSave (ID r)) (st\<lparr>rows := (rows st)(ID r \<mapsto> r)\<rparr>)"
    from None have step: "saveOne db (em, sv, st) r = (em, sv @ [r], ?st1)"
      by (simp add: saveOne_def)
    from Cons.prems(1) have run: "foldl (saveOne db) (em, sv @ [r], ?st1) rs = (em', sv', st')"
      by (simp add: step)
    from Cons.prems(3) have disj: "ID ` set rs \<inter> fst ` set em = {}" by auto
    from Cons.IH[OF run d disj] have
      a: "sv' = (sv @ [r]) @ filter (\<lambda>r. map_of em' (ID r) = None) rs"
      and b: "map (\<lambda>r. map_of em' (ID r)) rs = saveOutcomes db (rows ?st1) rs"
      and c: "\<forall>k. k \<notin> ID ` set rs \<longrightarrow> map_of em' k = map_of em k \<and> rows st' k = rows ?st1 k"
      and e: "\<forall>r \<in> set rs. map_of em' (ID r) = None \<longrightarrow> rows st' (ID r) = Some r"
      by blast+
    have rows1: "rows ?st1 = (rows st)(ID r \<mapsto> r)" by (simp add: logCall_def)
    from c fresh nokey rows1 have here: "map_of em' (ID r) = None" "rows st' (ID r) = Some r"
      by simp_all
    from c rows1 have c': "\<forall>k. k \<notin> ID ` set (r # rs)
                             \<longrightarrow> map_of em' k = map_of em k \<and> rows st' k = rows st k"
      by simp
    from a b c' e here rows1 None show ?thesis by simp
  qed
qed

text \<open>
  C8 (amended). A non-atomic save batch passes validation on a writable database for
  which the result filter is built, the schema extension succeeds, and the
  de-serialized records have pairwise distinct record ids. Then the response has no
  error and its result array has one entry for each incoming item, in input order: for a
  malformed item the de-serialization error, for a record whose id the error map holds
  that error under the id's string form, and for any other record the filtered record.
  The error map holds, for each record, exactly the outcome of its own per-item save;
  the saved records are the records without an entry in the error map, in the order of
  the batch, and each of them is in the rows of the final store.
\<close>

theorem nonatomic_save_results:
  assumes "save_Decode data = Inr p" and "\<not> Atomic p"
    and "\<not> IsReadOnly (Database payload)"
    and "NewRecordResultFilter payload = Inr resultFilter"
    and "ExtendRecordSchema (Database payload) (Records p) st = (Inr changed, st1)"
    and "distinct (map ID (Records p))"
  shows "\<exists>resp' st'.
           fst (save_Handle hasEventSender payload data st)
             = Inr \<lparr>Err = None, Result = Some (map (saveResult resp' resultFilter) (RawMaps p)),
                    RespInfo = None\<rparr>
         \<and> snd (save_Handle hasEventSender payload data st) = st'
         \<and> Records p = decodedRecords (RawMaps p)
         \<and> map (\<lambda>r. map_of (ErrMap resp') (ID r)) (Records p)
             = saveOutcomes (Database payload) (rows st1) (Records p)
         \<and> SavedRecords resp' = filter (\<lambda>r. map_of (ErrMap resp') (ID r) = None) (Records p)
         \<and> (\<forall>r \<in> set (SavedRecords resp'). rows st' (ID r) = Some r)"
proof -
  let ?req = "\<lparr>Db = Database payload, RecordsToSave = Records p, RecordIDsToDelete = [],
               reqAtomic = Atomic p, WithMasterKey = HasMasterKey payload\<rparr>"
  let ?resp = "\<lparr>ErrMap = [], SavedRecords = []\<rparr>"
  obtain em sv st2 where loop:
    "foldl (saveOne (Database payload)) ([], [], st1) (Records p) = (em, sv, st2)"
    by (metis prod_cases3)
  let ?resp' = "\<lparr>ErrMap = em, SavedRecords = sv\<rparr>"
  from loop assms(2) have run: "recordutil_RecordSaveHandler ?req ?resp st1 = (None, ?resp', st2)"
    by (simp add: recordutil_RecordSaveHandler_def)
  from save_loop_result[OF loop assms(6)] have
    sv: "sv = filter (\<lambda>r. map_of em (ID r) = None) (Records p)"
    and outs: "map (\<lambda>r. map_of em (ID r)) (Records p)
                 = saveOutcomes (Database payload) (rows st1) (Records p)"
    and written: "\<forall>r \<in> set (Records p). map_of em (ID r) = None \<longrightarrow> rows st2 (ID r) = Some r"
    by simp_all
  from save_Decode_Inr[OF assms(1)] have items: "IncomingItems p = map incomingItem (RawMaps p)"
    and recs: "Records p = decodedRecords (RawMaps p)" by auto
  from sv recs have "SavedRecords ?resp'
      = [] @ filter (\<lambda>r. map_of (ErrMap ?resp') (ID r) = None) (decodedRecords (RawMaps p))"
    by simp
  from makeResults_aligned[OF this, of 0 resultFilter "[]"] items
  have made: "makeResultsFromIncomingItem (IncomingItems p) ?resp' resultFilter 0 []
                = Inr (map (saveResult ?resp' resultFilter) (RawMaps p))"
    by simp
  from assms(1-5) run made have
    h: "fst (save_Handle hasEventSender payload data st)
             = Inr \<lparr>Err = None, Result = Some (map (saveResult ?resp' resultFilter) (RawMaps p)),
                    RespInfo = None\<rparr>"
    and st': "rows (snd (save_Handle hasEventSender payload data st)) = rows st2"
    by (simp_all add: save_Handle_def Let_def)
  from written sv st' have
    "\<forall>r \<in> set (SavedRecords ?resp').
       rows (snd (save_Handle hasEventSender payload data st)) (ID r) = Some r"
    by simp
  with h recs outs sv show ?thesis
    by (intro exI[of _ ?resp'] exI[of _ "snd (save_Handle hasEventSender payload data st)"]) simp
qed

theorem nonatomic_save_results_witness:
  "save_Decode (Some (False, mixedBatch))
     = Inr \<lparr>Atomic = False, RawMaps = mixedBatch,
            IncomingItems = [ItemID \<lparr>Type = ''note'', Key = ''1''\<rparr>,
                             ItemError (SkyErr InvalidArgument ''missing _id'' NoInfo),
                             ItemID \<lparr>Type = ''note'', Key = ''9''\<rparr>],
            Records = decodedRecords mixedBatch,
            Errs = [SkyErr InvalidArgument ''missing _id'' NoInfo], Clean = False\<rparr>
   \<and> \<not> IsReadOnly (Database examplePayload)
   \<and> fst (ExtendRecordSchema (Database examplePayload) (decodedRecords mixedBatch) exampleStore)
       = Inr True
   \<and> distinct (map ID (decodedRecords mixedBatch))
   \<and> fst (save_Handle True examplePayload (Some (False, mixedBatch)) exampleStore)
       = Inr \<lparr>Err = None,
              Result = Some [JSONResult (noteRecord ''1'' [(''age'', IntegerVal 12)]),
                             SerializedError [] (SkyErr InvalidArgument ''missing _id'' NoInfo),
                             SerializedError ''note/9''
                               (SkyErr PermissionDenied ''no permission to modify'' NoInfo)],
              RespInfo = None\<rparr>
   \<and> rows (snd (save_Handle True examplePayload (Some (False, mixedBatch)) exampleStore))
         \<lparr>Type = ''note'', Key = ''1''\<rparr>
       = Some (noteRecord ''1'' [(''age'', IntegerVal 12), (''secret'', StringVal ''x'')])"
  using nonatomic_save_results
          [of "Some (False, mixedBatch)"
              "\<lparr>Atomic = False, RawMaps = mixedBatch,
                IncomingItems = [ItemID \<lparr>Type = ''note'', Key = ''1''\<rparr>,
                                 ItemError (SkyErr InvalidArgument ''missing _id'' NoInfo),
                                 ItemID \<lparr>Type = ''note'', Key = ''9''\<rparr>],
                Records = decodedRecords mixedBatch,
                Errs = [SkyErr InvalidArgument ''missing _id'' NoInfo], Clean = False\<rparr>"
              examplePayload "\<lambda>r. r\<lparr>Data := filter (\<lambda>(f, v). f \<noteq> ''secret'') (Data r)\<rparr>"
              exampleStore True
              "snd (ExtendRecordSchema (Database examplePayload) (decodedRecords mixedBatch)
                      exampleStore)"
              True]
  by (simp add: save_Decode_def save_Validate_def ItemLen_def mixedBatch_def decodedRecords_def
        noteRecord_def examplePayload_def exampleDb_def exampleStore_def logCall_def
        save_Handle_def ExtendRecordSchema_def NewError_def Let_def
        recordutil_RecordSaveHandler_def saveOne_def isLocked_def lockedRecord_def
        newSerializedError_def RecordID_String_def)

text \<open>
  The claim as first stated has each item of every non-atomic batch fare independently
  of its siblings. In the batch below the first note is fine on its own (sent alone, it
  is saved and returned), but its sibling brings a string for the integer field \<open>age\<close>:
  the whole batch is rejected with IncompatibleSchema, there is no result array, and no
  row is written.
\<close>

theorem nonatomic_save_schema_conflict_counterexample:
  "fst (save_Handle True examplePayload (Some (False, conflictingBatch)) exampleStore)
     = Inr \<lparr>Err = Some (SkyErr IncompatibleSchema ''conflicting schema of field note.age''
                           (InfoArguments [''age''])),
            Result = None, RespInfo = None\<rparr>
   \<and> rows (snd (save_Handle True examplePayload (Some (False, conflictingBatch)) exampleStore))
       = rows exampleStore
   \<and> fst (save_Handle True examplePayload (Some (False, [hd conflictingBatch])) exampleStore)
     = Inr \<lparr>Err = None, Result = Some [JSONResult (noteRecord ''1'' [(''age'', IntegerVal 12)])],
            RespInfo = None\<rparr>"
  by (simp add: save_Decode_def save_Validate_def ItemLen_def conflictingBatch_def
        noteRecord_def examplePayload_def exampleDb_def exampleStore_def logCall_def
        save_Handle_def ExtendRecordSchema_def NewError_def NewErrorWithInfo_def errResponse_def
        Let_def recordutil_RecordSaveHandler_def saveOne_def isLocked_def lockedRecord_def
        newSerializedError_def RecordID_String_def)

text \<open>
  Record ids that occur twice in a batch are outside the amended statement. The error
  map is keyed by record id and the saved records are read by a running index, so in
  the batch below the first note, which was saved, is reported with the error of its
  namesake, and the entry of the third item is the record of the first.
\<close>

lemma duplicate_ids_results:
  "fst (save_Handle True examplePayload (Some (False, duplicateBatch)) exampleStore)
     = Inr \<lparr>Err = None,
            Result = Some [SerializedError ''note/3''
                             (SkyErr PermissionDenied ''no permission to modify'' NoInfo),
                           SerializedError ''note/3''
                             (SkyErr PermissionDenied ''no permission to modify'' NoInfo),
                           JSONResult (noteRecord ''3'' [(''locked'', BooleanVal True)])],
            RespInfo = None\<rparr>
   \<and> rows (snd (save_Handle True examplePayload (Some (False, duplicateBatch)) exampleStore))
         \<lparr>Type = ''note'', Key = ''3''\<rparr>
     = Some (noteRecord ''3'' [(''locked'', BooleanVal True)])
   \<and> rows (snd (save_Handle True examplePayload (Some (False, duplicateBatch)) exampleStore))
         \<lparr>Type = ''note'', Key = ''4''\<rparr>
     = Some (noteRecord ''4'' [(''age'', IntegerVal 2)])"
  by (simp add: save_Decode_def save_Validate_def ItemLen_def duplicateBatch_def
        noteRecord_def examplePayload_def exampleDb_def exampleStore_def logCall_def
        save_Handle_def ExtendRecordSchema_def NewError_def Let_def
        recordutil_RecordSaveHandler_def saveOne_def isLocked_def lockedRecord_def
        newSerializedError_def RecordID_String_def)

subsection \<open>The ACL walk of a query\<close>

lemma firstDenied_append:
  "firstDenied acl a rt (xs @ ys)
     = (case firstDenied acl a rt xs of Some e \<Rightarrow> Some e | None \<Rightarrow> firstDenied acl a rt ys)"
  by (induction xs) (simp_all split: option.splits)

lemma visit_firstDenied:
  "visitPredicate acl a rt p err
     = (case err of Some e \<Rightarrow> Some e | None \<Rightarrow> firstDenied acl a rt (pathsOf p))"
  "visitPredicates acl a rt ps err
     = (case err of Some e \<Rightarrow> Some e | None \<Rightarrow> firstDenied acl a rt (pathsOfList ps))"
  "visitOperand acl a rt operand err
     = (case err of Some e \<Rightarrow> Some e | None \<Rightarrow> firstDenied acl a rt (pathsOfOperand operand))"
proof (induction acl a rt p err and acl a rt ps err and acl a rt operand err
       rule: visitPredicate_visitPredicates_visitOperand.induct)
  case (1 acl a rt p e)
  then show ?case by simp
next
  case (2 acl a rt path opr operand)
  then show ?case by (simp split: option.splits)
next
  case (3 acl a rt opr children)
  then show ?case by simp
next
  case (4 acl a rt path args)
  then show ?case by (simp split: option.splits)
next
  case (5 acl a rt err)
  then show ?case by (simp split: option.splits)
next
  case (6 acl a rt p ps err)
  then show ?case by (simp add: firstDenied_append split: option.splits)
next
  case (7 acl a rt operand e)
  then show ?case by simp
next
  case (8 acl a rt v)
  then show ?case by simp
next
  case (9 acl a rt p)
  then show ?case by simp
qed

lemma firstDenied_None:
  "firstDenied acl a rt paths = None \<longleftrightarrow> (\<forall>path \<in> set paths. readable acl a rt path)"
  by (induction paths) (auto simp: checkPath_def readable_def split: option.splits prod.splits if_splits)

lemma firstDenied_Some:
  "firstDenied acl a rt paths = Some e \<Longrightarrow> Code e = PermissionDenied"
  by (induction paths) (auto simp: checkPath_def NewError_def split: option.splits prod.splits if_splits)

lemma Accept_firstDenied:
  "Accept q acl a = firstDenied acl a (QueryType q) (queryPaths q)"
  by (simp add: Accept_def queryPaths_def visit_firstDenied split: option.splits)


lemma query_Handle_denied:
  assumes "queryFromRaw env = Inr q" and "GetRecordFieldAccess env = Inr fieldACL"
    and "\<not> HasMasterKey payload" and "Accept q fieldACL (AuthInfo payload) = Some e"
  shows "query_Handle payload env st = (Inr (errResponse e), logCall CallGetFieldACL st)"
  using assms by (simp add: query_Handle_def Let_def)

lemma query_Handle_passed:
  assumes "queryFromRaw env = Inr q" and "GetRecordFieldAccess env = Inr fieldACL"
    and "HasMasterKey payload \<or> Accept q fieldACL (AuthInfo payload) = None"
  shows "snd (query_Handle payload env st)
           = logCall (CallQuery (QueryType q)) (logCall CallGetFieldACL st)"
  using assms by (auto simp: query_Handle_def Let_def split: sum.splits option.splits)

lemma query_Handle_bypass:
  assumes "queryFromRaw env = Inr q" and "GetRecordFieldAccess env = Inr fieldACL"
    and "HasMasterKey payload"
  shows "query_Handle payload (env\<lparr>GetRecordFieldAccess := Inr acl'\<rparr>) st
           = query_Handle payload env st"
  using assms by (simp add: query_Handle_def Let_def split: sum.splits option.splits)

text \<open>
  C5. The query is parsed and the field ACL is loaded. When the principal has no master
  key and the predicate refers to a field the principal may not read, the handler
  answers with a PermissionDenied error, the first denial in the order of the walk, and
  the only call that reached the store is the loading of the field ACL. The store query
  is issued at most once, after the loading of the ACL, and only when the principal has
  the master key or every field path of the predicate is readable. With the master key
  the store query is issued and the answer is the same under any other field ACL: the
  walk plays no part.
\<close>

theorem query_acl_gate:
  assumes "queryFromRaw env = Inr q" and "GetRecordFieldAccess env = Inr fieldACL"
  shows "(\<not> HasMasterKey payload
            \<and> (\<exists>path \<in> set (queryPaths q). \<not> readable fieldACL (AuthInfo payload) (QueryType q) path)
          \<longrightarrow> (\<exists>e. query_Handle payload env st = (Inr (errResponse e), logCall CallGetFieldACL st)
                   \<and> Code e = PermissionDenied
                   \<and> firstDenied fieldACL (AuthInfo payload) (QueryType q) (queryPaths q) = Some e))
       \<and> (calls (snd (query_Handle payload env st)) = calls st @ [CallGetFieldACL]
          \<or> calls (snd (query_Handle payload env st))
               = calls st @ [CallGetFieldACL, CallQuery (QueryType q)]
             \<and> (HasMasterKey payload
                \<or> (\<forall>path \<in> set (queryPaths q). readable fieldACL (AuthInfo payload) (QueryType q) path)))
       \<and> (HasMasterKey payload
          \<longrightarrow> calls (snd (query_Handle payload env st))
                 = calls st @ [CallGetFieldACL, CallQuery (QueryType q)]
              \<and> (\<forall>acl'. query_Handle payload (env\<lparr>GetRecordFieldAccess := Inr acl'\<rparr>) st
                          = query_Handle payload env st))"
proof -
  let ?walk = "firstDenied fieldACL (AuthInfo payload) (QueryType q) (queryPaths q)"
  have acc: "Accept q fieldACL (AuthInfo payload) = ?walk" by (rule Accept_firstDenied)
  have denied: "\<exists>e. query_Handle payload env st = (Inr (errResponse e), logCall CallGetFieldACL st)
                   \<and> Code e = PermissionDenied \<and> ?walk = Some e"
    if "\<not> HasMasterKey payload"
      and "\<exists>path \<in> set (queryPaths q). \<not> readable fieldACL (AuthInfo payload) (QueryType q) path"
  proof -
    from that(2) have "?walk \<noteq> None" by (simp add: firstDenied_None)
    then obtain e where e: "?walk = Some e" by auto
    from query_Handle_denied[OF assms that(1)] acc e firstDenied_Some[OF e] show ?thesis by simp
  qed
  have gate: "calls (snd (query_Handle payload env st)) = calls st @ [CallGetFieldACL]
          \<or> calls (snd (query_Handle payload env st))
               = calls st @ [CallGetFieldACL, CallQuery (QueryType q)]
             \<and> (HasMasterKey payload
                \<or> (\<forall>path \<in> set (queryPaths q). readable fieldACL (AuthInfo payload) (QueryType q) path))"
  proof (cases "HasMasterKey payload \<or> ?walk = None")
    case True
    with query_Handle_passed[OF assms, of payload st] acc
    have "calls (snd (query_Handle payload env st))
               = calls st @ [CallGetFieldACL, CallQuery (QueryType q)]"
      by (simp add: logCall_def)
    with True show ?thesis by (auto simp: firstDenied_None)
  next
    case False
    then obtain e where "\<not> HasMasterKey payload" "?walk = Some e" by auto
    with query_Handle_denied[OF assms, of payload e st] acc show ?thesis
      by (simp add: logCall_def)
  qed
  have bypass: "calls (snd (query_Handle payload env st))
                 = calls st @ [CallGetFieldACL, CallQuery (QueryType q)]
              \<and> (\<forall>acl'. query_Handle payload (env\<lparr>GetRecordFieldAccess := Inr acl'\<rparr>) st
                          = query_Handle payload env st)"
    if "HasMasterKey payload"
    using query_Handle_passed[OF assms, of payload st] query_Handle_bypass[OF assms that] that
    by (simp add: logCall_def)
  from denied gate bypass show ?thesis by blast
qed

theorem query_acl_gate_witness:
  "queryFromRaw secretQueryEnv = Inr secretQuery
   \<and> GetRecordFieldAccess secretQueryEnv = Inr secretACL
   \<and> \<not> HasMasterKey examplePayload
   \<and> \<not> readable secretACL (AuthInfo examplePayload) (QueryType secretQuery) (Field ''secret'')
   \<and> Field ''secret'' \<in> set (queryPaths secretQuery)
   \<and> query_Handle examplePayload secretQueryEnv exampleStore
       = (Inr \<lparr>Err = Some (SkyErr PermissionDenied
                 ''Cannot query on field secret of record type note due to Field ACL'' NoInfo),
               Result = None, RespInfo = None\<rparr>,
          logCall CallGetFieldACL exampleStore)
   \<and> calls (snd (query_Handle examplePayload secretQueryEnv exampleStore)) = [CallGetFieldACL]
   \<and> HasMasterKey (examplePayload\<lparr>HasMasterKey := True\<rparr>)
   \<and> calls (snd (query_Handle (examplePayload\<lparr>HasMasterKey := True\<rparr>) secretQueryEnv exampleStore))
       = [CallGetFieldACL, CallQuery ''note'']
   \<and> fst (query_Handle (examplePayload\<lparr>HasMasterKey := True\<rparr>) secretQueryEnv exampleStore)
       = Inr \<lparr>Err = None, Result = Some [JSONResult (noteRecord ''5'' [(''age'', IntegerVal 30)])],
              RespInfo = None\<rparr>"
  using query_acl_gate[of secretQueryEnv secretQuery secretACL examplePayload exampleStore]
        query_acl_gate[of secretQueryEnv secretQuery secretACL
                          "examplePayload\<lparr>HasMasterKey := True\<rparr>" exampleStore]
  by (simp add: secretQueryEnv_def secretQuery_def secretACL_def examplePayload_def
        exampleStore_def exampleDb_def noteRecord_def query_Handle_def Accept_def checkPath_def
        readable_def queryPaths_def logCall_def errResponse_def NewError_def MakeError.simps
        Let_def)

subsection \<open>Atomic requests on a database without transactions\<close>

text \<open>
  C1 (amended). The database does not implement the transaction capability. An atomic
  delete request that passes validation is answered by a NotSupported error and the
  store is returned as it was given: no delete was attempted. An atomic save request
  that passes validation with no malformed record, on a writable database for which the
  result filter is built and whose schema extension succeeds, is answered by the
  NotSupported error of the coordinator: the schema extension is the one call that
  reached the store, no save was attempted and the rows are those from before.
\<close>

theorem atomic_request_without_transaction:
  "(delete_Decode ddata = Inr dp \<and> delAtomic dp \<and> \<not> Transactional (Database payload)
      \<longrightarrow> delete_Handle payload ddata st
            = (Inr (errResponse (NewError NotSupported
                 (if IsReadOnly (Database payload)
                  then ''modifying the selected database is not supported''
                  else ''database impl does not support transaction''))), st))
   \<and> (save_Decode data = Inr p \<and> Atomic p \<and> Clean p
        \<and> \<not> IsReadOnly (Database payload)
        \<and> NewRecordResultFilter payload = Inr resultFilter
        \<and> ExtendRecordSchema (Database payload) (Records p) st = (Inr changed, st1)
        \<and> \<not> Transactional (Database payload)
      \<longrightarrow> save_Handle hasEventSender payload data st
            = (Inr (errResponse (NewError NotSupported
                                   ''database impl does not support transaction'')), st1)
          \<and> rows st1 = rows st \<and> calls st1 = calls st @ [CallExtendSchema])
   \<and> Code (NewError NotSupported msg) = NotSupported"
proof -
  have del: "delete_Handle payload ddata st
            = (Inr (errResponse (NewError NotSupported
                 (if IsReadOnly (Database payload)
                  then ''modifying the selected database is not supported''
                  else ''database impl does not support transaction''))), st)"
    if "delete_Decode ddata = Inr dp" and "delAtomic dp" and "\<not> Transactional (Database payload)"
    using that
    by (simp add: delete_Handle_def Let_def atomicModifyFunc_not_transactional)
  have sav: "save_Handle hasEventSender payload data st
            = (Inr (errResponse (NewError NotSupported
                                   ''database impl does not support transaction'')), st1)
          \<and> rows st1 = rows st \<and> calls st1 = calls st @ [CallExtendSchema]"
    if "save_Decode data = Inr p" and "Atomic p" and "Clean p"
      and "\<not> IsReadOnly (Database payload)"
      and "NewRecordResultFilter payload = Inr resultFilter"
      and x: "ExtendRecordSchema (Database payload) (Records p) st = (Inr changed, st1)"
      and "\<not> Transactional (Database payload)"
    using that ExtendRecordSchema_calls[OF x]
    by (simp add: save_Handle_def Let_def atomicModifyFunc_not_transactional)
  from del sav show ?thesis by (simp add: NewError_def)
qed

theorem atomic_request_without_transaction_witness:
  "delete_Decode (Some ([], [\<lparr>rawType = ''note'', rawKey = ''5''\<rparr>], True))
     = Inr \<lparr>DeprecatedIDs = [], RawRecords = [\<lparr>rawType = ''note'', rawKey = ''5''\<rparr>],
            delAtomic = True, parsedRecordIDs = [\<lparr>Type = ''note'', Key = ''5''\<rparr>]\<rparr>
   \<and> \<not> Transactional (Database (examplePayload\<lparr>Database := exampleDb\<lparr>Transactional := False\<rparr>\<rparr>))
   \<and> delete_Handle (examplePayload\<lparr>Database := exampleDb\<lparr>Transactional := False\<rparr>\<rparr>)
        (Some ([], [\<lparr>rawType = ''note'', rawKey = ''5''\<rparr>], True)) exampleStore
     = (Inr \<lparr>Err = Some (SkyErr NotSupported ''database impl does not support transaction''
                            NoInfo),
             Result = None, RespInfo = None\<rparr>,
        exampleStore)
   \<and> save_Decode (Some (True, [Inr (noteRecord ''1'' [(''title'', StringVal ''hello'')])]))
     = Inr \<lparr>Atomic = True, RawMaps = [Inr (noteRecord ''1'' [(''title'', StringVal ''hello'')])],
            IncomingItems = [ItemID \<lparr>Type = ''note'', Key = ''1''\<rparr>],
            Records = [noteRecord ''1'' [(''title'', StringVal ''hello'')]],
            Errs = [], Clean = True\<rparr>
   \<and> fst (ExtendRecordSchema exampleDb [noteRecord ''1'' [(''title'', StringVal ''hello'')]]
            exampleStore) = Inr True
   \<and> fst (save_Handle True (examplePayload\<lparr>Database := exampleDb\<lparr>Transactional := False\<rparr>\<rparr>)
            (Some (True, [Inr (noteRecord ''1'' [(''title'', StringVal ''hello'')])])) exampleStore)
     = Inr \<lparr>Err = Some (SkyErr NotSupported ''database impl does not support transaction''
                           NoInfo),
            Result = None, RespInfo = None\<rparr>
   \<and> rows (snd (save_Handle True (examplePayload\<lparr>Database := exampleDb\<lparr>Transactional := False\<rparr>\<rparr>)
            (Some (True, [Inr (noteRecord ''1'' [(''title'', StringVal ''hello'')])])) exampleStore))
     = rows exampleStore
   \<and> calls (snd (save_Handle True (examplePayload\<lparr>Database := exampleDb\<lparr>Transactional := False\<rparr>\<rparr>)
            (Some (True, [Inr (noteRecord ''1'' [(''title'', StringVal ''hello'')])])) exampleStore))
     = [CallExtendSchema]"
  using atomic_request_without_transaction
          [where ddata = "Some ([], [\<lparr>rawType = ''note'', rawKey = ''5''\<rparr>], True)"
             and dp = "\<lparr>DeprecatedIDs = [], RawRecords = [\<lparr>rawType = ''note'', rawKey = ''5''\<rparr>],
                        delAtomic = True, parsedRecordIDs = [\<lparr>Type = ''note'', Key = ''5''\<rparr>]\<rparr>"
             and payload = "examplePayload\<lparr>Database := exampleDb\<lparr>Transactional := False\<rparr>\<rparr>"
             and st = exampleStore
             and data = "Some (True, [Inr (noteRecord ''1'' [(''title'', StringVal ''hello'')])])"
             and p = "\<lparr>Atomic = True,
                       RawMaps = [Inr (noteRecord ''1'' [(''title'', StringVal ''hello'')])],
                       IncomingItems = [ItemID \<lparr>Type = ''note'', Key = ''1''\<rparr>],
                       Records = [noteRecord ''1'' [(''title'', StringVal ''hello'')]],
                       Errs = [], Clean = True\<rparr>"
             and resultFilter = "\<lambda>r. r\<lparr>Data := filter (\<lambda>(f, v). f \<noteq> ''secret'') (Data r)\<rparr>"
             and changed = True
             and ?st1.0 = "snd (ExtendRecordSchema exampleDb
                                 [noteRecord ''1'' [(''title'', StringVal ''hello'')]] exampleStore)"
             and hasEventSender = True and msg = "[]"]
  by (simp add: delete_Decode_def delete_Validate_def RecordID_of_def save_Decode_def
        save_Validate_def ItemLen_def noteRecord_def examplePayload_def exampleDb_def
        exampleStore_def logCall_def ExtendRecordSchema_def errResponse_def NewError_def
        Let_def)

text \<open>
  The claim as first stated holds of every atomic request. An atomic save with a
  malformed record, sent to a database without transactions, never reaches the
  coordinator: the answer is InvalidArgument, and the store is untouched.
\<close>

theorem atomic_save_without_transaction_counterexample:
  "\<not> Transactional (Database (examplePayload\<lparr>Database := exampleDb\<lparr>Transactional := False\<rparr>\<rparr>))
   \<and> save_Handle True (examplePayload\<lparr>Database := exampleDb\<lparr>Transactional := False\<rparr>\<rparr>)
        (Some (True, [Inr (noteRecord ''1'' [(''age'', IntegerVal 12)]), Inl ''missing _id'']))
        exampleStore
     = (Inr \<lparr>Err = Some (SkyErr InvalidArgument ''fails to de-serialize records''
                            (InfoDeserialize ''records''
                               [SkyErr InvalidArgument ''missing _id'' NoInfo])),
             Result = None, RespInfo = None\<rparr>,
        exampleStore)
   \<and> InvalidArgument \<noteq> NotSupported"
  by (simp add: save_Handle_def save_Decode_def save_Validate_def ItemLen_def Let_def
        examplePayload_def exampleDb_def errResponse_def NewError_def NewErrorWithInfo_def)

end
